theory Spec2Isabelle
  imports Complex_Main
begin

section \<open>Text helpers of the Python runtime\<close>

text \<open>
  Strings are byte lists. \<open>str.strip()\<close>, \<open>str.isdigit()\<close> and \<open>int(str)\<close> are modelled on
  ASCII text: the whitespace of \<open>str.isspace\<close> is tab, line feed, vertical tab, form feed,
  carriage return, the separators 0x1C..0x1F and the space.
\<close>

definition py_isspace :: "char \<Rightarrow> bool" where
  "py_isspace c = (c \<in> set [CHR 0x09, CHR 0x0A, CHR 0x0B, CHR 0x0C, CHR 0x0D,
                              CHR 0x1C, CHR 0x1D, CHR 0x1E, CHR 0x1F, CHR 0x20])"

definition py_strip :: "string \<Rightarrow> string" where
  "py_strip s = rev (dropWhile py_isspace (rev (dropWhile py_isspace s)))"

definition is_digit :: "char \<Rightarrow> bool" where
  "is_digit c = (c \<in> set ''0123456789'')"

definition digit_val :: "char \<Rightarrow> nat" where
  "digit_val c = of_char c - 48"

text \<open>\<open>str.isdigit()\<close>: non-empty and every character a digit.\<close>

definition py_isdigit :: "string \<Rightarrow> bool" where
  "py_isdigit s = (s \<noteq> [] \<and> list_all is_digit s)"

text \<open>The value of a digit string, most significant digit first.\<close>

definition nat_of_digits :: "string \<Rightarrow> nat" where
  "nat_of_digits s = foldl (\<lambda>acc c. 10 * acc + digit_val c) 0 s"

text \<open>
  The digit groups of an integer literal: \<open>int()\<close> allows single underscores between
  digits (\<open>int('1_000') = 1000\<close>), never at the ends and never doubled.
\<close>

fun digit_groups :: "string \<Rightarrow> string option" where
  "digit_groups [] = None"
| "digit_groups [c] = (if is_digit c then Some [c] else None)"
| "digit_groups (c # d # s) =
     (if \<not> is_digit c then None
      else if d = CHR ''_'' then map_option (\<lambda>r. c # r) (digit_groups s)
      else map_option (\<lambda>r. c # r) (digit_groups (d # s)))"

text \<open>\<open>int(s)\<close> in base 10: None is the ValueError.\<close>

definition py_int :: "string \<Rightarrow> int option" where
  "py_int s =
     (case py_strip s of
        [] \<Rightarrow> None
      | c # r \<Rightarrow>
          if c = CHR ''-'' then map_option (\<lambda>ds. - int (nat_of_digits ds)) (digit_groups r)
          else if c = CHR ''+'' then map_option (\<lambda>ds. int (nat_of_digits ds)) (digit_groups r)
          else map_option (\<lambda>ds. int (nat_of_digits ds)) (digit_groups (c # r)))"

text \<open>The decimal text of a natural number, as an f-string prints it.\<close>

fun str_nat :: "nat \<Rightarrow> string" where
  "str_nat n =
     (if n < 10 then [''0123456789'' ! n]
      else str_nat (n div 10) @ [''0123456789'' ! (n mod 10)])"

declare str_nat.simps [simp del]

text \<open>\<open>sep.join(parts)\<close> with the separator a line feed.\<close>

fun join_lines :: "string list \<Rightarrow> string" where
  "join_lines [] = []"
| "join_lines [s] = s"
| "join_lines (s # t # ss) = s @ [CHR 0x0A] @ join_lines (t # ss)"

section \<open>The parsed document\<close>

text \<open>
  \<open>BeautifulSoup(html_content, 'html.parser')\<close> is a library call: the tree it builds is the
  input of the extractor, and the parser itself is a parameter \<open>bs\<close> of the model.
  A node is a tag (name, attributes with one value for each name, children), a text
  string or a comment.
\<close>

datatype node =
    Tag string "(string \<times> string) list" "node list"
  | Text string
  | Comment string

fun is_tag :: "node \<Rightarrow> bool" where
  "is_tag (Tag n a cs) = True"
| "is_tag _ = False"

fun tag_name :: "node \<Rightarrow> string" where
  "tag_name (Tag n a cs) = n"
| "tag_name _ = []"

fun attrs :: "node \<Rightarrow> (string \<times> string) list" where
  "attrs (Tag n a cs) = a"
| "attrs _ = []"

text \<open>All descendants of a node in document order (the order of \<open>find_all\<close>).\<close>

fun descendants :: "node \<Rightarrow> node list" where
  "descendants (Tag n a cs) = concat (map (\<lambda>c. c # descendants c) cs)"
| "descendants (Text s) = []"
| "descendants (Comment s) = []"

definition soup_descendants :: "node list \<Rightarrow> node list" where
  "soup_descendants soup = concat (map (\<lambda>c. c # descendants c) soup)"

text \<open>\<open>.text\<close>: the text strings below a node, concatenated; comments are left out.\<close>

fun get_text :: "node \<Rightarrow> string" where
  "get_text (Tag n a cs) = concat (map get_text cs)"
| "get_text (Text s) = s"
| "get_text (Comment s) = []"

text \<open>
  The \<open>class\<close> attribute is multi-valued: its text is split at whitespace, and
  \<open>class_='c'\<close> matches a tag one of whose classes is \<open>c\<close>.
\<close>

fun words_acc :: "string \<Rightarrow> string \<Rightarrow> string list" where
  "words_acc cur [] = (if cur = [] then [] else [cur])"
| "words_acc cur (c # s) =
     (if py_isspace c then (if cur = [] then words_acc [] s else cur # words_acc [] s)
      else words_acc (cur @ [c]) s)"

definition classes :: "node \<Rightarrow> string list" where
  "classes n = (case map_of (attrs n) ''class'' of None \<Rightarrow> [] | Some v \<Rightarrow> words_acc [] v)"

definition matches :: "string \<Rightarrow> string \<Rightarrow> node \<Rightarrow> bool" where
  "matches name cls n = (is_tag n \<and> tag_name n = name \<and> cls \<in> set (classes n))"

definition matches_name :: "string \<Rightarrow> node \<Rightarrow> bool" where
  "matches_name name n = (is_tag n \<and> tag_name n = name)"

text \<open>\<open>soup.find_all(name, class_=cls)\<close> on the whole document.\<close>

definition find_all :: "string \<Rightarrow> string \<Rightarrow> node list \<Rightarrow> node list" where
  "find_all name cls soup = filter (matches name cls) (soup_descendants soup)"

text \<open>\<open>tag.find(name, class_=cls)\<close> and \<open>tag.find(name)\<close>: the first match below the tag, or None.\<close>

definition find_cls :: "string \<Rightarrow> string \<Rightarrow> node \<Rightarrow> node option" where
  "find_cls name cls t = List.find (matches name cls) (descendants t)"

definition find_name :: "string \<Rightarrow> node \<Rightarrow> node option" where
  "find_name name t = List.find (matches_name name) (descendants t)"

text \<open>\<open>a or b\<close> on two lookups: a tag is always truthy, so the second is used only when the
  first is None.\<close>

definition or_else :: "'a option \<Rightarrow> 'a option \<Rightarrow> 'a option" where
  "or_else a b = (case a of Some x \<Rightarrow> Some x | None \<Rightarrow> b)"

section \<open>The record extractor: \<open>parse_normativa\<close>\<close>

text \<open>The dictionary built for every item, with the keys of the source.\<close>

record normativa =
  titulo :: string
  url :: string
  fecha_publicacion :: string
  fecha_cierre :: string
  estado :: string
  comentarios :: "int option"

text \<open>The three \<open>continue\<close> branches that skip an item, each with its warning.\<close>

datatype skipped = No_Header | No_Link | Empty_Url

text \<open>The date of one column: the nested value span's text, or the empty string.\<close>

definition fecha_of :: "node \<Rightarrow> string \<Rightarrow> string \<Rightarrow> string" where
  "fecha_of fechas primary secondary =
     (case or_else (find_cls ''div'' primary fechas) (find_cls ''div'' secondary fechas) of
        None \<Rightarrow> []
      | Some col \<Rightarrow>
          (case or_else (find_cls ''span'' ''bq-fechas-value'' col)
                        (find_cls ''span'' ''fecha'' col) of
             None \<Rightarrow> []
           | Some fecha_span \<Rightarrow> py_strip (get_text fecha_span)))"

definition extract_fechas :: "node \<Rightarrow> string \<times> string" where
  "extract_fechas proceso =
     (case or_else (find_cls ''div'' ''bq-normaFechas'' proceso)
                   (find_cls ''div'' ''fechas-container'' proceso) of
        None \<Rightarrow> ([], [])
      | Some fechas \<Rightarrow>
          (fecha_of fechas ''bq-col-publicado'' ''fecha-publicacion'',
           fecha_of fechas ''bq-col-cierre'' ''fecha-cierre''))"

definition extract_estado :: "node \<Rightarrow> string" where
  "extract_estado proceso =
     (case or_else (find_cls ''div'' ''estado-container'' proceso)
                   (find_cls ''div'' ''estado'' proceso) of
        None \<Rightarrow> []
      | Some estado_div \<Rightarrow>
          (case find_name ''div'' estado_div of
             None \<Rightarrow> []
           | Some estado_text \<Rightarrow> py_strip (get_text estado_text)))"

text \<open>The comment count starts at 0 and keeps it when a block is missing or \<open>int()\<close> raises
  ValueError (caught inside the extractor).\<close>

definition extract_comentarios :: "node \<Rightarrow> int" where
  "extract_comentarios proceso =
     (case or_else (find_cls ''div'' ''respuestasContainer'' proceso)
                   (find_cls ''div'' ''comentarios'' proceso) of
        None \<Rightarrow> 0
      | Some comentarios_div \<Rightarrow>
          (case or_else (find_cls ''div'' ''bq-statics-number'' comentarios_div)
                        (find_cls ''div'' ''numero'' comentarios_div) of
             None \<Rightarrow> 0
           | Some num_div \<Rightarrow>
               (case py_int (py_strip (get_text num_div)) of
                  None \<Rightarrow> 0
                | Some n \<Rightarrow> n)))"

text \<open>The body of the loop over the item containers, up to the dictionary.\<close>

definition extract_item :: "node \<Rightarrow> skipped + normativa" where
  "extract_item proceso =
     (case or_else (find_cls ''div'' ''bq-proceso-header-title'' proceso)
                   (find_cls ''div'' ''proceso-title'' proceso) of
        None \<Rightarrow> Inl No_Header
      | Some header \<Rightarrow>
          (case find_name ''a'' header of
             None \<Rightarrow> Inl No_Link
           | Some link \<Rightarrow>
               (case map_of (attrs link) ''href'' of
                  None \<Rightarrow> Inl Empty_Url
                | Some href \<Rightarrow>
                    if href = [] then Inl Empty_Url
                    else Inr \<lparr> titulo = py_strip (get_text link),
                               url = href,
                               fecha_publicacion = fst (extract_fechas proceso),
                               fecha_cierre = snd (extract_fechas proceso),
                               estado = extract_estado proceso,
                               comentarios = Some (extract_comentarios proceso) \<rparr>)))"

text \<open>The item containers: the primary class, else the secondary one, over the whole
  document.\<close>

definition find_procesos :: "node list \<Rightarrow> node list" where
  "find_procesos soup =
     (if find_all ''div'' ''bq-proceso'' soup \<noteq> [] then find_all ''div'' ''bq-proceso'' soup
      else find_all ''div'' ''proceso-container'' soup)"

text \<open>One turn of the loop: a skipped item leaves the list alone, a record is appended
  unless a record with its url is already in the list.\<close>

definition add_proceso :: "normativa list \<Rightarrow> node \<Rightarrow> normativa list" where
  "add_proceso normativas proceso =
     (case extract_item proceso of
        Inl w \<Rightarrow> normativas
      | Inr normativa \<Rightarrow>
          if list_ex (\<lambda>n. url n = url normativa) normativas then normativas
          else normativas @ [normativa])"

definition parse_normativa :: "(string \<Rightarrow> node list) \<Rightarrow> string \<Rightarrow> normativa list" where
  "parse_normativa bs html_content = foldl add_proceso [] (find_procesos (bs html_content))"

section \<open>Calendar dates and the format \<open>%d/%m/%Y\<close>\<close>

datatype date = Date (year: int) (month: nat) (day: nat)

definition date_less :: "date \<Rightarrow> date \<Rightarrow> bool" where
  "date_less a b =
     (year a < year b \<or> (year a = year b \<and>
        (month a < month b \<or> (month a = month b \<and> day a < day b))))"

definition date_le :: "date \<Rightarrow> date \<Rightarrow> bool" where
  "date_le a b = (a = b \<or> date_less a b)"

definition is_leap :: "int \<Rightarrow> bool" where
  "is_leap y = (y mod 4 = 0 \<and> (y mod 100 \<noteq> 0 \<or> y mod 400 = 0))"

definition days_in_month :: "int \<Rightarrow> nat \<Rightarrow> nat" where
  "days_in_month y m =
     (if m = 2 then (if is_leap y then 29 else 28)
      else if m \<in> set [4, 6, 9, 11] then 30 else 31)"

text \<open>\<open>str.split(sep)\<close> for a one-character separator.\<close>

fun split_acc :: "char \<Rightarrow> string \<Rightarrow> string \<Rightarrow> string list" where
  "split_acc sep cur [] = [cur]"
| "split_acc sep cur (c # s) =
     (if c = sep then cur # split_acc sep [] s else split_acc sep (cur @ [c]) s)"

text \<open>
  The fields of the format, as the strptime of the Python runtime reads them: the day is
  one digit 1..9, two digits worth 1..31, or a space and a digit 1..9; the month is one
  digit 1..9 or two digits worth 1..12; the year is exactly four digits.
\<close>

definition day_field :: "string \<Rightarrow> nat option" where
  "day_field s =
     (case s of
        [a] \<Rightarrow> if is_digit a \<and> a \<noteq> CHR ''0'' then Some (digit_val a) else None
      | [a, b] \<Rightarrow>
          if a = CHR '' '' \<and> is_digit b \<and> b \<noteq> CHR ''0'' then Some (digit_val b)
          else if is_digit a \<and> is_digit b \<and> 1 \<le> nat_of_digits [a, b] \<and> nat_of_digits [a, b] \<le> 31
          then Some (nat_of_digits [a, b]) else None
      | _ \<Rightarrow> None)"

definition month_field :: "string \<Rightarrow> nat option" where
  "month_field s =
     (case s of
        [a] \<Rightarrow> if is_digit a \<and> a \<noteq> CHR ''0'' then Some (digit_val a) else None
      | [a, b] \<Rightarrow>
          if is_digit a \<and> is_digit b \<and> 1 \<le> nat_of_digits [a, b] \<and> nat_of_digits [a, b] \<le> 12
          then Some (nat_of_digits [a, b]) else None
      | _ \<Rightarrow> None)"

definition year_field :: "string \<Rightarrow> nat option" where
  "year_field s = (if length s = 4 \<and> list_all is_digit s then Some (nat_of_digits s) else None)"

text \<open>
  \<open>datetime.strptime(text, '%d/%m/%Y')\<close> of the Python runtime, as the constructor calls
  it: None is the \<open>ValueError\<close> of a text that does not match the format or names no
  calendar date (year 0, 31/04, 29/02 outside a leap year).
\<close>

definition strptime_dmy :: "string \<Rightarrow> date option" where
  "strptime_dmy s =
     (case split_acc CHR ''/'' [] s of
        [ds, ms, ys] \<Rightarrow>
          (case (day_field ds, month_field ms, year_field ys) of
             (Some d, Some m, Some y) \<Rightarrow>
               if 1 \<le> y \<and> d \<le> days_in_month (int y) m then Some (Date (int y) m d) else None
           | _ \<Rightarrow> None)
      | _ \<Rightarrow> None)"

definition zfill :: "nat \<Rightarrow> string \<Rightarrow> string" where
  "zfill w s = replicate (w - length s) CHR ''0'' @ s"

text \<open>
  Modelled from the spec: the repository has no function that writes a calendar date back
  as DD/MM/YYYY text (its CSV and statistics hold ISO dates); this is the re-serialization
  to "the same text format" the date round trip of the spec speaks of: \<open>strftime\<close> with the
  format \<open>%d/%m/%Y\<close>, day and month zero-padded to two digits, year to four.
\<close>

definition strftime_dmy :: "date \<Rightarrow> string" where
  "strftime_dmy d =
     zfill 2 (str_nat (day d)) @ ''/'' @ zfill 2 (str_nat (month d)) @ ''/'' @
     zfill 4 (str_nat (nat (year d)))"

section \<open>The data-frame library\<close>

text \<open>The exceptions of the model. \<open>Panic_Exception\<close> is the one exception here that is no
  \<open>Exception\<close>: an \<open>except Exception\<close> clause does not catch it.\<close>

datatype causa = Strptime_Error | Inicio_Posterior

datatype exn =
    Fechas_ValueError causa
  | Driver_Exception
  | WebDriver_Exception
  | Sector_Exception
  | Entidad_Exception
  | Polars_Error
  | Attribute_Error
  | File_Error
  | Panic_Exception

definition caught :: "exn \<Rightarrow> bool" where
  "caught e = (e \<noteq> Panic_Exception)"

text \<open>
  The calls into the data-frame library are not code of the repository, and two points
  of the library's behaviour that decide what the code does are not fixed by the source.
  They are parameters of the model, and every property below holds for each value of
  them:
  \<^item> \<open>other_text\<close>: what \<open>str.strptime(pl.Date, '%d/%m/%Y')\<close> makes of a text that is not
    empty and not of the fixed form below (one-digit days, blanks, signs, short years:
    the library accepts more than the Python runtime does); None is a text it rejects;
  \<^item> \<open>out_of_range\<close>: how handing a date outside the years 1 to 9999 to Python fails: by
    an exception that \<open>except Exception\<close> catches, or by a panic, which passes it.
\<close>

datatype failure = Raises | Panics

record library =
  other_text :: "string \<Rightarrow> date option"
  out_of_range :: "date \<Rightarrow> failure"

text \<open>The fixed form: two digits, a slash, two digits, a slash, four digits, naming a
  calendar date (the year 0000 included).\<close>

definition fixed_dmy :: "string \<Rightarrow> date option" where
  "fixed_dmy s =
     (if length s = 10 \<and> s ! 2 = CHR ''/'' \<and> s ! 5 = CHR ''/'' \<and>
         list_all is_digit (take 2 s) \<and> list_all is_digit (take 2 (drop 3 s)) \<and>
         list_all is_digit (drop 6 s) \<and>
         1 \<le> nat_of_digits (take 2 (drop 3 s)) \<and> nat_of_digits (take 2 (drop 3 s)) \<le> 12 \<and>
         1 \<le> nat_of_digits (take 2 s) \<and>
         nat_of_digits (take 2 s) \<le>
           days_in_month (int (nat_of_digits (drop 6 s))) (nat_of_digits (take 2 (drop 3 s)))
      then Some (Date (int (nat_of_digits (drop 6 s))) (nat_of_digits (take 2 (drop 3 s)))
                   (nat_of_digits (take 2 s)))
      else None)"

text \<open>
  \<open>str.strptime(pl.Date, '%d/%m/%Y')\<close> on one value, in the default strict mode: None is
  a value that does not convert, for which the call raises. The empty text never
  converts; a text of the fixed form is the date it names, day first; every other text
  is left to the library.
\<close>

definition pl_strptime :: "library \<Rightarrow> string \<Rightarrow> date option" where
  "pl_strptime L s =
     (if s = [] then None
      else (case fixed_dmy s of
              Some d \<Rightarrow> Some d
            | None \<Rightarrow> other_text L s))"

text \<open>Handing a date of a column to Python (\<open>min()\<close>, \<open>max()\<close>): None is success, and a
  year that a Python date cannot hold fails the way the library fails.\<close>

definition to_python :: "library \<Rightarrow> date \<Rightarrow> exn option" where
  "to_python L d =
     (if 1 \<le> year d \<and> year d \<le> 9999 then None
      else (case out_of_range L d of Raises \<Rightarrow> Some Polars_Error | Panics \<Rightarrow> Some Panic_Exception))"

section \<open>Normalization: \<open>transform_data\<close>\<close>

text \<open>
  The whitespace of the data-frame library's \<open>strip\<close> and of its regular expression
  \<open>\s\<close>, on ASCII text.
\<close>

definition is_white_space :: "char \<Rightarrow> bool" where
  "is_white_space c = (c \<in> set [CHR 0x09, CHR 0x0A, CHR 0x0B, CHR 0x0C, CHR 0x0D, CHR 0x20])"

definition str_strip :: "string \<Rightarrow> string" where
  "str_strip s = rev (dropWhile is_white_space (rev (dropWhile is_white_space s)))"

text \<open>\<open>replace_all(r'\s+', ' ')\<close>: every maximal run of whitespace becomes one space; the
  flag says that the previous character was whitespace.\<close>

fun replace_all_ws :: "bool \<Rightarrow> string \<Rightarrow> string" where
  "replace_all_ws in_run [] = []"
| "replace_all_ws in_run (c # s) =
     (if is_white_space c
      then (if in_run then replace_all_ws True s else CHR '' '' # replace_all_ws True s)
      else c # replace_all_ws False s)"

definition clean_titulo :: "string \<Rightarrow> string" where
  "clean_titulo t = replace_all_ws False (str_strip t)"

text \<open>\<open>cast(pl.Int32)\<close> is strict: a value outside the 32-bit range raises. A null stays
  null and \<open>fill_null(0)\<close> makes it 0.\<close>

definition cast_int32 :: "int option \<Rightarrow> int option option" where
  "cast_int32 v =
     (case v of
        None \<Rightarrow> Some None
      | Some n \<Rightarrow> if - (2 ^ 31) \<le> n \<and> n < 2 ^ 31 then Some (Some n) else None)"

definition fill_null :: "int \<Rightarrow> int option \<Rightarrow> int" where
  "fill_null d v = (case v of None \<Rightarrow> d | Some n \<Rightarrow> n)"

text \<open>A row of the transformed data frame, in the column order of \<open>columnas\<close>.\<close>

record registro =
  n_titulo :: string
  n_url :: string
  n_fecha_publicacion :: date
  n_fecha_cierre :: date
  n_estado :: string
  n_comentarios :: int
  entidad :: string
  sector :: string
  fecha_extraccion :: nat

text \<open>
  The expressions of \<open>with_columns\<close> work on whole columns; a value that fails in any
  row of any column raises, so the frame is built row by row here, and one failing row
  fails the frame. \<open>now\<close> is the one value of \<open>datetime.now()\<close> of the call.
\<close>

definition transform_row :: "library \<Rightarrow> nat \<Rightarrow> normativa \<Rightarrow> registro option" where
  "transform_row L now n =
     (case pl_strptime L (fecha_publicacion n) of
        None \<Rightarrow> None
      | Some pub \<Rightarrow>
          (case pl_strptime L (fecha_cierre n) of
             None \<Rightarrow> None
           | Some cierre \<Rightarrow>
               (case cast_int32 (comentarios n) of
                  None \<Rightarrow> None
                | Some c \<Rightarrow>
                    Some \<lparr> n_titulo = clean_titulo (titulo n),
                           n_url = url n,
                           n_fecha_publicacion = pub,
                           n_fecha_cierre = cierre,
                           n_estado = estado n,
                           n_comentarios = fill_null 0 c,
                           entidad = ''Ministerio de Agricultura y Desarrollo Rural'',
                           sector = ''Agropecuario'',
                           fecha_extraccion = now \<rparr>)))"

fun all_rows :: "'a option list \<Rightarrow> 'a list option" where
  "all_rows [] = Some []"
| "all_rows (None # rs) = None"
| "all_rows (Some r # rs) = map_option (\<lambda>t. r # t) (all_rows rs)"

text \<open>The body of the \<open>try\<close> of \<open>transform_data\<close> after the emptiness test.\<close>

definition transform_frame :: "library \<Rightarrow> nat \<Rightarrow> normativa list \<Rightarrow> exn + registro list" where
  "transform_frame L now normativas =
     (case all_rows (map (transform_row L now) normativas) of
        None \<Rightarrow> Inl Polars_Error
      | Some df \<Rightarrow> Inr df)"

text \<open>\<open>transform_data\<close> returns None for the empty list and, through its \<open>except\<close> clause,
  for every exception of the body.\<close>

definition transform_data :: "library \<Rightarrow> nat \<Rightarrow> normativa list \<Rightarrow> registro list option" where
  "transform_data L now normativas =
     (if normativas = [] then None
      else (case transform_frame L now normativas of
              Inl e \<Rightarrow> None
            | Inr df \<Rightarrow> Some df))"

section \<open>Output files: \<open>save_to_json\<close>, \<open>save_to_csv\<close>, \<open>json_to_csv\<close>\<close>

text \<open>
  The statistics written beside the CSV. The mean is the exact quotient (the source
  stores its floating-point value); the groups are listed in the order \<open>remdups\<close> leaves
  them (the library fixes no order); the dates are kept as dates (the file holds them
  as ISO text).
\<close>

record stats =
  total_normativas :: nat
  normativas_por_estado :: "(string \<times> nat) list"
  promedio_comentarios :: rat
  rango_min :: date
  rango_max :: date

fun min_date :: "date \<Rightarrow> date list \<Rightarrow> date" where
  "min_date m [] = m"
| "min_date m (d # ds) = min_date (if date_less d m then d else m) ds"

fun max_date :: "date \<Rightarrow> date list \<Rightarrow> date" where
  "max_date m [] = m"
| "max_date m (d # ds) = max_date (if date_less m d then d else m) ds"

text \<open>
  The dictionary \<open>stats\<close>, built after the CSV is written. Its entries are evaluated in
  order, the minimum of the publication dates before the maximum, and each of the two
  is handed to Python to be formatted: \<open>Inl\<close> is the exception of the first that fails.
  On a frame without rows the minimum is None and formatting it raises.
\<close>

definition stats_of :: "library \<Rightarrow> registro list \<Rightarrow> exn + stats" where
  "stats_of L df =
     (case df of
        [] \<Rightarrow> Inl Attribute_Error
      | r # rs \<Rightarrow>
          (case to_python L (min_date (n_fecha_publicacion r) (map n_fecha_publicacion rs)) of
             Some e \<Rightarrow> Inl e
           | None \<Rightarrow>
               (case to_python L (max_date (n_fecha_publicacion r) (map n_fecha_publicacion rs)) of
                  Some e \<Rightarrow> Inl e
                | None \<Rightarrow>
                    Inr \<lparr> total_normativas = length df,
                          normativas_por_estado =
                            map (\<lambda>e. (e, length (filter (\<lambda>x. n_estado x = e) df)))
                              (remdups (map n_estado df)),
                          promedio_comentarios =
                            of_int (sum_list (map n_comentarios df)) / of_nat (length df),
                          rango_min = min_date (n_fecha_publicacion r) (map n_fecha_publicacion rs),
                          rango_max = max_date (n_fecha_publicacion r) (map n_fecha_publicacion rs) \<rparr>)))"

text \<open>
  What a run can change outside itself: the three files under their default names
  (None: not written) and the browser session. Opening and writing a file is taken to
  succeed.
\<close>

record world =
  json_file :: "normativa list option"
  csv_file :: "registro list option"
  stats_file :: "stats option"
  driver_open :: bool

definition save_to_json :: "normativa list \<Rightarrow> world \<Rightarrow> world" where
  "save_to_json data w = (if data = [] then w else w\<lparr>json_file := Some data\<rparr>)"

text \<open>
  The statistics step that ends \<open>save_to_csv\<close> and \<open>json_to_csv\<close>, inside their \<open>try\<close>: the
  file is written when the dictionary is built; an exception that \<open>except Exception\<close>
  catches ends the call without it; a panic leaves the call (\<open>Some\<close>). The CSV is on
  disk in each case.
\<close>

definition write_stats :: "library \<Rightarrow> registro list \<Rightarrow> world \<Rightarrow> exn option \<times> world" where
  "write_stats L df w =
     (case stats_of L df of
        Inr st \<Rightarrow> (None, w\<lparr>stats_file := Some st\<rparr>)
      | Inl e \<Rightarrow> (if caught e then None else Some e, w))"

text \<open>\<open>save_to_csv\<close>: the exception that leaves the call, if one does, and the files.\<close>

definition save_to_csv :: "library \<Rightarrow> nat \<Rightarrow> normativa list \<Rightarrow> world \<Rightarrow> exn option \<times> world" where
  "save_to_csv L now data w =
     (if data = [] then (None, w)
      else (case transform_data L now data of
              None \<Rightarrow> (None, w)
            | Some df \<Rightarrow> write_stats L df (w\<lparr>csv_file := Some df\<rparr>)))"

text \<open>\<open>json_to_csv\<close> repeats the transformations of \<open>transform_data\<close> in its own body
  (source lines 665 to 689); they are translated from there.\<close>

definition json_to_csv_row :: "library \<Rightarrow> nat \<Rightarrow> normativa \<Rightarrow> registro option" where
  "json_to_csv_row L now n =
     (case pl_strptime L (fecha_publicacion n) of
        None \<Rightarrow> None
      | Some pub \<Rightarrow>
          (case pl_strptime L (fecha_cierre n) of
             None \<Rightarrow> None
           | Some cierre \<Rightarrow>
               (case cast_int32 (comentarios n) of
                  None \<Rightarrow> None
                | Some c \<Rightarrow>
                    Some \<lparr> n_titulo = replace_all_ws False (str_strip (titulo n)),
                           n_url = url n,
                           n_fecha_publicacion = pub,
                           n_fecha_cierre = cierre,
                           n_estado = estado n,
                           n_comentarios = fill_null 0 c,
                           entidad = ''Ministerio de Agricultura y Desarrollo Rural'',
                           sector = ''Agropecuario'',
                           fecha_extraccion = now \<rparr>)))"

definition json_to_csv_frame :: "library \<Rightarrow> nat \<Rightarrow> normativa list \<Rightarrow> exn + registro list" where
  "json_to_csv_frame L now normativas =
     (case all_rows (map (json_to_csv_row L now) normativas) of
        None \<Rightarrow> Inl Polars_Error
      | Some df \<Rightarrow> Inr df)"

text \<open>The dump read back is the list \<open>save_to_json\<close> wrote; a missing file raises inside
  the \<open>try\<close>, and every exception that \<open>except Exception\<close> catches ends the call with the
  files as they are.\<close>

definition json_to_csv :: "library \<Rightarrow> nat \<Rightarrow> world \<Rightarrow> exn option \<times> world" where
  "json_to_csv L now w =
     (case json_file w of
        None \<Rightarrow> (None, w)
      | Some normativas \<Rightarrow>
          if normativas = [] then (None, w)
          else (case json_to_csv_frame L now normativas of
                  Inl e \<Rightarrow> (None, w)
                | Inr df \<Rightarrow> write_stats L df (w\<lparr>csv_file := Some df\<rparr>)))"

section \<open>The retry policy: \<open>retry_with_delay\<close>\<close>

text \<open>
  \<open>func\<close> has effects, so its outcome depends on the attempt: \<open>func i\<close> is the outcome of
  the call made in attempt \<open>i\<close> (counted from 0), \<open>Inl\<close> an exception. The result records
  what the caller sees (\<open>Inl\<close>: the exception raised; \<open>Inr None\<close>: the loop ran out without
  a call, the function returns None), how often \<open>func\<close> was called and the sleeps made.
\<close>

record ('e, 'a) retried =
  result :: "'e + 'a option"
  calls :: nat
  sleeps :: "nat list"

function retry_from :: "(nat \<Rightarrow> 'e + 'a) \<Rightarrow> int \<Rightarrow> nat \<Rightarrow> nat \<Rightarrow> ('e, 'a) retried" where
  "retry_from func max_retries delay attempt =
     (if \<not> int attempt < max_retries then \<lparr>result = Inr None, calls = 0, sleeps = []\<rparr>
      else (case func attempt of
              Inr v \<Rightarrow> \<lparr>result = Inr (Some v), calls = 1, sleeps = []\<rparr>
            | Inl e \<Rightarrow>
                if int attempt < max_retries - 1
                then (let r = retry_from func max_retries delay (attempt + 1)
                      in r\<lparr>calls := 1 + calls r, sleeps := delay # sleeps r\<rparr>)
                else \<lparr>result = Inl e, calls = 1, sleeps = []\<rparr>))"
  by pat_completeness auto
termination
  by (relation "measure (\<lambda>(func, max_retries, delay, attempt). nat (max_retries - int attempt))") auto

declare retry_from.simps [simp del]

definition retry_with_delay :: "(nat \<Rightarrow> 'e + 'a) \<Rightarrow> int \<Rightarrow> nat \<Rightarrow> ('e, 'a) retried" where
  "retry_with_delay func max_retries delay = retry_from func max_retries delay 0"

section \<open>Pagination traversal: the loop of \<open>get_page_content\<close>\<close>

text \<open>
  What the loop reads from the browser. A pagination link has its \<open>data-num\<close> attribute
  (None: absent) and may raise when scrolled to and clicked. A rendered page has the
  numbers of elements of the two item classes, its source, and its pagination links;
  \<open>procesos_raise\<close> says that looking up the items or the source raises (the outer
  \<open>except\<close>), \<open>links_raise\<close> that listing the links or reading their attributes raises
  (the inner \<open>except\<close> with the CSS fallback).
\<close>

record link =
  data_num :: "string option"
  click_raises :: bool

record page =
  procesos_raise :: bool
  bq_proceso :: nat
  proceso_container :: nat
  page_source :: string
  links_raise :: bool
  page_links :: "link list"

text \<open>The page number a link leads to: \<open>data_num\<close> present, all digits, read by \<open>int\<close>.\<close>

definition link_target :: "link \<Rightarrow> nat option" where
  "link_target l =
     (case data_num l of
        None \<Rightarrow> None
      | Some s \<Rightarrow> if py_isdigit s then Some (nat_of_digits s) else None)"

text \<open>The \<open>for\<close> loop over the links: the first link to page \<open>current_page + 1\<close> whose click
  does not raise is followed (\<open>next_page_found\<close>); a link that raises is passed over.\<close>

fun next_page_found :: "link list \<Rightarrow> nat \<Rightarrow> bool" where
  "next_page_found [] current_page = False"
| "next_page_found (l # ls) current_page =
     (if link_target l = Some (current_page + 1) \<and> \<not> click_raises l then True
      else next_page_found ls current_page)"

text \<open>The fallback: the first link the selector \<open>[data-num='N']\<close> matches, \<open>N\<close> the text of
  \<open>current_page + 1\<close>; no such link, or a click that raises, ends the loop.\<close>

definition css_next :: "link list \<Rightarrow> nat \<Rightarrow> bool" where
  "css_next ls current_page =
     (case List.find (\<lambda>l. data_num l = Some (str_nat (current_page + 1))) ls of
        None \<Rightarrow> False
      | Some l \<Rightarrow> \<not> click_raises l)"

definition advance :: "page \<Rightarrow> nat \<Rightarrow> bool" where
  "advance pg current_page =
     (if links_raise pg then css_next (page_links pg) current_page
      else next_page_found (page_links pg) current_page)"

text \<open>The source of a page is kept when it shows elements of the first class or, failing
  that, of the second.\<close>

definition collect :: "page \<Rightarrow> string list \<Rightarrow> string list" where
  "collect pg all_page_sources =
     (if bq_proceso pg \<noteq> 0 \<or> proceso_container pg \<noteq> 0 then all_page_sources @ [page_source pg]
      else all_page_sources)"

text \<open>
  The \<open>while True\<close> loop. \<open>site n\<close> is the page the browser shows after the control of
  page \<open>n\<close> was clicked (\<open>site 1\<close> after the filters). The loop has no bound, so the
  function is partial: None is a traversal that never ends. It returns the last page
  number and the sources collected.
\<close>

partial_function (option) traverse :: "(nat \<Rightarrow> page) \<Rightarrow> nat \<Rightarrow> string list \<Rightarrow> (nat \<times> string list) option" where
  "traverse site current_page all_page_sources =
     (if procesos_raise (site current_page) then Some (current_page, all_page_sources)
      else if advance (site current_page) current_page
           then traverse site (current_page + 1) (collect (site current_page) all_page_sources)
           else Some (current_page, collect (site current_page) all_page_sources))"

text \<open>\<open>_get_content\<close>: loading the page may raise, the two selections raise when they
  fail; then the loop, whose own failures never leave it, and the sources joined.\<close>

record render_env =
  get_raises :: bool
  sector_ok :: bool
  entidad_ok :: bool
  env_site :: "nat \<Rightarrow> page"

definition get_content :: "render_env \<Rightarrow> (exn + string) option" where
  "get_content env =
     (if get_raises env then Some (Inl WebDriver_Exception)
      else if \<not> sector_ok env then Some (Inl Sector_Exception)
      else if \<not> entidad_ok env then Some (Inl Entidad_Exception)
      else map_option (\<lambda>(current_page, all_page_sources). Inr (join_lines all_page_sources))
             (traverse (env_site env) 1 []))"

text \<open>\<open>get_page_content\<close>: the content under the retry policy, \<open>attempts i\<close> the outcome of
  \<open>_get_content\<close> in attempt \<open>i\<close>; an exception left after the retries is logged and None
  returned.\<close>

definition get_page_content :: "(nat \<Rightarrow> exn + string) \<Rightarrow> string option" where
  "get_page_content attempts =
     (case result (retry_with_delay attempts 3 5) of
        Inl e \<Rightarrow> None
      | Inr content \<Rightarrow> content)"

section \<open>The run\<close>

text \<open>
  \<open>run\<close> has a \<open>finally\<close> clause and no \<open>except\<close> clause: it returns in one of three ways
  (\<open>Inr\<close>), or an exception that left \<open>save_to_csv\<close> leaves it too (\<open>Inl\<close>); the browser is
  closed on every path, and the files are as the steps before left them.
\<close>

datatype run_exit = No_Content | No_Normativas | Finalizado

definition run :: "library \<Rightarrow> (string \<Rightarrow> node list) \<Rightarrow> nat \<Rightarrow> (nat \<Rightarrow> exn + string) \<Rightarrow> world \<Rightarrow> (exn + run_exit) \<times> world" where
  "run L bs now attempts w =
     (case get_page_content attempts of
        None \<Rightarrow> (Inr No_Content, w\<lparr>driver_open := False\<rparr>)
      | Some content \<Rightarrow>
          if content = [] then (Inr No_Content, w\<lparr>driver_open := False\<rparr>)
          else if parse_normativa bs content = [] then (Inr No_Normativas, w\<lparr>driver_open := False\<rparr>)
          else (case save_to_csv L now (parse_normativa bs content)
                       (save_to_json (parse_normativa bs content) w) of
                  (None, w') \<Rightarrow> (Inr Finalizado, w'\<lparr>driver_open := False\<rparr>)
                | (Some e, w') \<Rightarrow> (Inl e, w'\<lparr>driver_open := False\<rparr>)))"

section \<open>Construction: \<open>__init__\<close>\<close>

record crawler =
  self_estado :: "string option"
  self_tipo_documento :: "string option"
  self_fecha_inicio :: "string option"
  self_fecha_fin :: "string option"
  base_url :: string

text \<open>The validation of the dates, made when both are given and not empty: the
  \<open>ValueError\<close> of a text that does not parse and the one raised for a start after the end
  are both raised again as a \<open>ValueError\<close>.\<close>

definition validar_fechas :: "string option \<Rightarrow> string option \<Rightarrow> exn + unit" where
  "validar_fechas fecha_inicio fecha_fin =
     (case (fecha_inicio, fecha_fin) of
        (Some a, Some b) \<Rightarrow>
          if a = [] \<or> b = [] then Inr ()
          else (case strptime_dmy a of
                  None \<Rightarrow> Inl (Fechas_ValueError Strptime_Error)
                | Some inicio \<Rightarrow>
                    (case strptime_dmy b of
                       None \<Rightarrow> Inl (Fechas_ValueError Strptime_Error)
                     | Some fin \<Rightarrow>
                         if date_less fin inicio then Inl (Fechas_ValueError Inicio_Posterior)
                         else Inr ()))
      | _ \<Rightarrow> Inr ())"

text \<open>The effects of the constructor, in order: \<open>setup_driver\<close> is the first step that
  reaches the network and the browser; \<open>driver_ok\<close> says whether it succeeds.\<close>

datatype effect = Setup_Logging | Setup_Driver

definition init :: "string option \<Rightarrow> string option \<Rightarrow> string option \<Rightarrow> string option \<Rightarrow> bool \<Rightarrow> (exn + crawler) \<times> effect list" where
  "init estado_arg tipo_documento fecha_inicio fecha_fin driver_ok =
     (case validar_fechas fecha_inicio fecha_fin of
        Inl e \<Rightarrow> (Inl e, [])
      | Inr u \<Rightarrow>
          if driver_ok
          then (Inr \<lparr> self_estado = estado_arg, self_tipo_documento = tipo_documento,
                      self_fecha_inicio = fecha_inicio, self_fecha_fin = fecha_fin,
                      base_url = ''https://www.sucop.gov.co/busqueda?pageSize=100'' \<rparr>,
                [Setup_Logging, Setup_Driver])
          else (Inl Driver_Exception, [Setup_Logging, Setup_Driver]))"

section \<open>Notions the properties are stated with\<close>

text \<open>The title anchor of an item: the first \<open>a\<close> below its header block, if both exist;
  and \<open>link.get('href', '')\<close>.\<close>

definition title_anchor :: "node \<Rightarrow> node option" where
  "title_anchor proceso =
     (case List.find (\<lambda>d. matches ''div'' ''bq-proceso-header-title'' d) (descendants proceso) of
        Some header \<Rightarrow> List.find (matches_name ''a'') (descendants header)
      | None \<Rightarrow>
          (case List.find (\<lambda>d. matches ''div'' ''proceso-title'' d) (descendants proceso) of
             Some header \<Rightarrow> List.find (matches_name ''a'') (descendants header)
           | None \<Rightarrow> None))"

definition get_href :: "node \<Rightarrow> string" where
  "get_href a = (case map_of (attrs a) ''href'' of None \<Rightarrow> [] | Some h \<Rightarrow> h)"

text \<open>An item has no block of either of two classes.\<close>

definition no_block :: "string \<Rightarrow> string \<Rightarrow> node \<Rightarrow> bool" where
  "no_block primary secondary proceso =
     (\<not> list_ex (\<lambda>d. matches ''div'' primary d \<or> matches ''div'' secondary d) (descendants proceso))"

text \<open>The item of a document that yields a record with a given url.\<close>

definition has_item :: "node list \<Rightarrow> string \<Rightarrow> bool" where
  "has_item soup u =
     list_ex (\<lambda>p. case extract_item p of Inl w \<Rightarrow> False | Inr r \<Rightarrow> url r = u) (find_procesos soup)"

text \<open>The sources of the pages 1 to \<open>k\<close> that show items, in page order.\<close>

definition collected :: "(nat \<Rightarrow> page) \<Rightarrow> nat \<Rightarrow> string list" where
  "collected st k =
     map page_source
       (filter (\<lambda>pg. bq_proceso pg \<noteq> 0 \<or> proceso_container pg \<noteq> 0) (map st [1..<Suc k]))"

text \<open>Page \<open>k\<close> has no pagination control that leads to page \<open>k + 1\<close>.\<close>

definition no_next_control :: "page \<Rightarrow> nat \<Rightarrow> bool" where
  "no_next_control pg k = (\<not> list_ex (\<lambda>l. link_target l = Some (k + 1)) (page_links pg))"

text \<open>The block whose text is read as the comment count, if the item has one.\<close>

definition comentarios_num_div :: "node \<Rightarrow> node option" where
  "comentarios_num_div proceso =
     (case or_else (List.find (matches ''div'' ''respuestasContainer'') (descendants proceso))
                   (List.find (matches ''div'' ''comentarios'') (descendants proceso)) of
        None \<Rightarrow> None
      | Some c \<Rightarrow>
          or_else (List.find (matches ''div'' ''bq-statics-number'') (descendants c))
                  (List.find (matches ''div'' ''numero'') (descendants c)))"

section \<open>Small inputs\<close>

text \<open>An item of the primary markup with a title anchor and nothing else.\<close>

definition ejemplo_item :: "string \<Rightarrow> node" where
  "ejemplo_item u =
     Tag ''div'' [(''class'', ''bq-proceso'')]
       [Tag ''div'' [(''class'', ''bq-proceso-header-title'')]
          [Tag ''a'' [(''href'', u)] [Text ''Norma'']]]"

text \<open>An item with a title anchor and a comment count that is no number.\<close>

definition ejemplo_abc :: node where
  "ejemplo_abc =
     Tag ''div'' [(''class'', ''bq-proceso'')]
       [Tag ''div'' [(''class'', ''bq-proceso-header-title'')]
          [Tag ''a'' [(''href'', ''/abc'')] [Text ''Norma'']],
        Tag ''div'' [(''class'', ''respuestasContainer'')]
          [Tag ''div'' [(''class'', ''bq-statics-number'')] [Text ''abc'']]]"

text \<open>A record whose dates are in the expected format, and one whose closing date is not.\<close>

definition ejemplo_normativa :: normativa where
  "ejemplo_normativa =
     \<lparr> titulo = ''Norma   uno'', url = ''/u'', fecha_publicacion = ''05/03/2024'',
       fecha_cierre = ''20/03/2024'', estado = ''Activa'', comentarios = Some 3 \<rparr>"

definition ejemplo_sin_cierre :: normativa where
  "ejemplo_sin_cierre = ejemplo_normativa \<lparr> url := ''/v'', fecha_cierre := [] \<rparr>"

definition ejemplo_world :: world where
  "ejemplo_world = \<lparr> json_file = None, csv_file = None, stats_file = None, driver_open = True \<rparr>"

text \<open>Attempts of the renderer: two failures, then a content.\<close>

definition ejemplo_attempts :: "string \<Rightarrow> nat \<Rightarrow> exn + string" where
  "ejemplo_attempts content i = (if i < 2 then Inl Sector_Exception else Inr content)"

text \<open>A stand-in for the library where a witness needs one: it rejects every text that is
  not of the fixed form, and panics on a year out of range.\<close>

definition ejemplo_library :: library where
  "ejemplo_library = \<lparr> other_text = (\<lambda>s. None), out_of_range = (\<lambda>d. Panics) \<rparr>"

text \<open>A record with the publication year 0000.\<close>

definition ejemplo_anno_cero :: normativa where
  "ejemplo_anno_cero = ejemplo_normativa \<lparr> fecha_publicacion := ''05/03/0000'' \<rparr>"

text \<open>A site whose first page shows items and a control for page 2 that raises when
  clicked, and the renderer session on it.\<close>

definition ejemplo_click_falla :: "nat \<Rightarrow> page" where
  "ejemplo_click_falla i =
     \<lparr> procesos_raise = False, bq_proceso = 2, proceso_container = 0, page_source = ''p1'',
       links_raise = False,
       page_links = [\<lparr>data_num = Some ''2'', click_raises = True\<rparr>] \<rparr>"

definition ejemplo_env :: render_env where
  "ejemplo_env =
     \<lparr> get_raises = False, sector_ok = True, entidad_ok = True, env_site = ejemplo_click_falla \<rparr>"

text \<open>An item of the primary markup with every block.\<close>

definition ejemplo_completo :: node where
  "ejemplo_completo =
     Tag ''div'' [(''class'', ''bq-proceso'')]
       [Tag ''div'' [(''class'', ''bq-proceso-header-title'')]
          [Tag ''a'' [(''href'', ''/u'')] [Text '' Norma   uno '']],
        Tag ''div'' [(''class'', ''bq-normaFechas'')]
          [Tag ''div'' [(''class'', ''bq-col-publicado'')]
             [Tag ''span'' [(''class'', ''bq-fechas-value'')] [Text ''05/03/2024'']],
           Tag ''div'' [(''class'', ''bq-col-cierre'')]
             [Tag ''span'' [(''class'', ''bq-fechas-value'')] [Text ''20/03/2024'']]],
        Tag ''div'' [(''class'', ''estado-container'')] [Tag ''div'' [] [Text ''Activa'']],
        Tag ''div'' [(''class'', ''respuestasContainer'')]
          [Tag ''div'' [(''class'', ''bq-statics-number'')] [Text ''3'']]]"

text \<open>A stand-in for the parser on line-structured content: a line that starts with a
  slash is an item with that url and no other block, a line that starts with a plus sign
  is the item with every block, any other line is text, and the line feeds between them
  are text nodes.\<close>

definition ejemplo_line :: "string \<Rightarrow> node" where
  "ejemplo_line l =
     (case l of
        [] \<Rightarrow> Text []
      | c # r \<Rightarrow>
          if c = CHR ''/'' then ejemplo_item l
          else if c = CHR ''+'' then ejemplo_completo
          else Text l)"

fun ejemplo_nodes :: "string list \<Rightarrow> node list" where
  "ejemplo_nodes [] = []"
| "ejemplo_nodes [l] = [ejemplo_line l]"
| "ejemplo_nodes (l # m # ls) = ejemplo_line l # Text [CHR 0x0A] # ejemplo_nodes (m # ls)"

definition ejemplo_bs :: "string \<Rightarrow> node list" where
  "ejemplo_bs s = ejemplo_nodes (split_acc (CHR 0x0A) [] s)"

text \<open>A site of two pages: the first shows no item and links to page 2, the second shows
  three items and has no link onwards.\<close>

definition ejemplo_site :: "nat \<Rightarrow> page" where
  "ejemplo_site i =
     (if i = 1
      then \<lparr> procesos_raise = False, bq_proceso = 0, proceso_container = 0, page_source = ''p1'',
             links_raise = False,
             page_links = [\<lparr>data_num = Some ''1'', click_raises = False\<rparr>,
                           \<lparr>data_num = Some ''2'', click_raises = False\<rparr>] \<rparr>
      else \<lparr> procesos_raise = False, bq_proceso = 3, proceso_container = 0, page_source = ''p2'',
             links_raise = False,
             page_links = [\<lparr>data_num = Some ''1'', click_raises = False\<rparr>,
                           \<lparr>data_num = Some ''2'', click_raises = False\<rparr>] \<rparr>)"

section \<open>The extractor keeps one record for each url\<close>

lemma add_proceso_distinct:
  "distinct (map url acc) \<Longrightarrow> distinct (map url (add_proceso acc p))"
  by (auto simp: add_proceso_def list_ex_iff split: sum.splits)

lemma foldl_add_proceso_distinct:
  "distinct (map url acc) \<Longrightarrow> distinct (map url (foldl add_proceso acc ps))"
  by (induction ps arbitrary: acc) (simp_all add: add_proceso_distinct)

lemma add_proceso_urls:
  "set (map url (add_proceso acc p)) =
     set (map url acc) \<union> (case extract_item p of Inl w \<Rightarrow> {} | Inr r \<Rightarrow> {url r})"
proof (cases "extract_item p")
  case (Inl w)
  then show ?thesis by (simp add: add_proceso_def)
next
  case (Inr r)
  show ?thesis
  proof (cases "list_ex (\<lambda>n. url n = url r) acc")
    case True
    then have "url r \<in> url ` set acc" unfolding list_ex_iff by (metis imageI)
    with True Inr show ?thesis by (auto simp: add_proceso_def)
  next
    case False
    with Inr show ?thesis by (auto simp: add_proceso_def)
  qed
qed

lemma foldl_add_proceso_urls:
  "set (map url (foldl add_proceso acc ps)) =
     set (map url acc) \<union> {u. \<exists>p \<in> set ps. \<exists>r. extract_item p = Inr r \<and> url r = u}"
proof (induction ps arbitrary: acc)
  case Nil
  then show ?case by simp
next
  case (Cons p ps)
  show ?case
    unfolding foldl_Cons Cons.IH add_proceso_urls
    by (cases "extract_item p") auto
qed

lemma parse_normativa_distinct: "distinct (map url (parse_normativa bs html_content))"
  unfolding parse_normativa_def by (rule foldl_add_proceso_distinct) simp

lemma yields_url_iff:
  "(case e of Inl w \<Rightarrow> False | Inr r \<Rightarrow> url r = u) = (\<exists>r. e = Inr r \<and> url r = u)"
  by (cases e) auto

lemma has_item_iff:
  "has_item soup u = (\<exists>p \<in> set (find_procesos soup). \<exists>r. extract_item p = Inr r \<and> url r = u)"
  by (simp add: has_item_def list_ex_iff yields_url_iff)

lemma parse_normativa_urls:
  "set (map url (parse_normativa bs html_content)) = {u. has_item (bs html_content) u}"
  unfolding parse_normativa_def foldl_add_proceso_urls has_item_iff by simp

lemma distinct_count_one:
  "distinct (map f xs) \<Longrightarrow> u \<in> set (map f xs) \<Longrightarrow> length (filter (\<lambda>r. f r = u) xs) = 1"
proof (induction xs)
  case Nil
  then show ?case by simp
next
  case (Cons x xs)
  show ?case
  proof (cases "f x = u")
    case True
    have "\<forall>y \<in> set xs. f y \<noteq> u"
    proof
      fix y assume "y \<in> set xs"
      then have "f y \<in> f ` set xs" by (rule imageI)
      with Cons.prems(1) True show "f y \<noteq> u" by auto
    qed
    then have "filter (\<lambda>r. f r = u) xs = []"
      by (simp add: filter_empty_conv)
    with True show ?thesis by simp
  next
    case False
    with Cons show ?thesis by auto
  qed
qed

lemma parse_normativa_once:
  assumes "has_item (bs html_content) u"
  shows "length (filter (\<lambda>r. url r = u) (parse_normativa bs html_content)) = 1"
proof -
  from assms have "u \<in> set (map url (parse_normativa bs html_content))"
    unfolding parse_normativa_urls by simp
  with parse_normativa_distinct show ?thesis by (rule distinct_count_one)
qed

lemma find_all_append:
  "find_all name cls (a @ b) = find_all name cls a @ find_all name cls b"
  by (simp add: find_all_def soup_descendants_def)

lemma find_all_text: "find_all name cls (Text t # b) = find_all name cls b"
  by (simp add: find_all_def soup_descendants_def matches_def)

lemma find_procesos_join:
  "set (find_procesos a) \<subseteq> set (find_procesos (a @ Text t # b)) \<or>
   set (find_procesos b) \<subseteq> set (find_procesos (a @ Text t # b))"
  by (auto simp: find_procesos_def find_all_append find_all_text)

lemma has_item_join:
  assumes "has_item a u" and "has_item b u"
  shows "has_item (a @ Text t # b) u"
  using assms find_procesos_join [of a t b] unfolding has_item_iff by blast

text \<open>
  C4. The records \<open>parse_normativa\<close> returns have pairwise distinct urls, for every
  document. A url that some item of the document yields is the url of exactly one
  record. When the parser reads the sources of two pages joined by a line feed as the
  nodes of the first, the line feed and the nodes of the second, and both pages have an
  item with the same url, the records of the joined content hold that url exactly once.
\<close>

theorem parse_normativa_distinct_urls:
  "distinct (map url (parse_normativa bs html_content)) \<and>
   (has_item (bs html_content) u \<longrightarrow>
      length (filter (\<lambda>r. url r = u) (parse_normativa bs html_content)) = 1) \<and>
   (bs (join_lines [page1, page2]) = bs page1 @ Text [CHR 0x0A] # bs page2 \<longrightarrow>
    has_item (bs page1) v \<longrightarrow> has_item (bs page2) v \<longrightarrow>
      length (filter (\<lambda>r. url r = v) (parse_normativa bs (join_lines [page1, page2]))) = 1)"
proof (intro conjI impI)
  show "distinct (map url (parse_normativa bs html_content))"
    by (rule parse_normativa_distinct)
next
  assume "has_item (bs html_content) u"
  then show "length (filter (\<lambda>r. url r = u) (parse_normativa bs html_content)) = 1"
    by (rule parse_normativa_once)
next
  assume j: "bs (join_lines [page1, page2]) = bs page1 @ Text [CHR 0x0A] # bs page2"
    and "has_item (bs page1) v" and "has_item (bs page2) v"
  then have "has_item (bs (join_lines [page1, page2])) v"
    by (simp only: j has_item_join)
  then show "length (filter (\<lambda>r. url r = v) (parse_normativa bs (join_lines [page1, page2]))) = 1"
    by (rule parse_normativa_once)
qed

lemma ejemplo_extract: "extract_item (ejemplo_item u) =
    (if u = [] then Inl Empty_Url
     else Inr \<lparr>titulo = ''Norma'', url = u, fecha_publicacion = [], fecha_cierre = [],
               estado = [], comentarios = Some 0\<rparr>)"
  by (simp add: extract_item_def ejemplo_item_def find_cls_def find_name_def or_else_def
      matches_def matches_name_def classes_def py_isspace_def py_strip_def
      extract_fechas_def extract_estado_def extract_comentarios_def)

lemma ejemplo_find_procesos: "find_procesos (ejemplo_item u # rest) = ejemplo_item u # find_all ''div'' ''bq-proceso'' rest"
  by (simp add: find_procesos_def find_all_def soup_descendants_def ejemplo_item_def
      matches_def classes_def py_isspace_def)

lemma ejemplo_has_item: "has_item (ejemplo_item ''/u'' # rest) ''/u''"
  by (simp add: has_item_def ejemplo_find_procesos ejemplo_extract)

lemma ejemplo_bs_page: "ejemplo_bs ''/u'' = [ejemplo_item ''/u'']"
  by (simp add: ejemplo_bs_def ejemplo_line_def)

lemma ejemplo_bs_joined:
  "ejemplo_bs (join_lines [''/u'', ''/u'']) = [ejemplo_item ''/u'', Text [CHR 0x0A], ejemplo_item ''/u'']"
  by (simp add: ejemplo_bs_def ejemplo_line_def)

theorem parse_normativa_distinct_urls_witness:
  "distinct (map url (parse_normativa ejemplo_bs (join_lines [''/u'', ''/u'']))) \<and>
   has_item (ejemplo_bs ''/u'') ''/u'' \<and>
   ejemplo_bs (join_lines [''/u'', ''/u'']) = ejemplo_bs ''/u'' @ Text [CHR 0x0A] # ejemplo_bs ''/u'' \<and>
   length (filter (\<lambda>r. url r = ''/u'') (parse_normativa ejemplo_bs ''/u'')) = 1 \<and>
   length (filter (\<lambda>r. url r = ''/u'') (parse_normativa ejemplo_bs (join_lines [''/u'', ''/u'']))) = 1"
proof -
  have h: "has_item (ejemplo_bs ''/u'') ''/u''"
    unfolding ejemplo_bs_page by (rule ejemplo_has_item)
  have j: "ejemplo_bs (join_lines [''/u'', ''/u'']) = ejemplo_bs ''/u'' @ Text [CHR 0x0A] # ejemplo_bs ''/u''"
    unfolding ejemplo_bs_page ejemplo_bs_joined by simp
  from parse_normativa_distinct_urls [of ejemplo_bs "join_lines [''/u'', ''/u'']" "''/u''" "''/u''" "''/u''" "''/u''"]
       parse_normativa_distinct_urls [of ejemplo_bs "''/u''" "''/u''" "''/u''" "''/u''" "''/u''"] h j
  show ?thesis by blast
qed

section \<open>Traversal ends at the first page without a control for the next page\<close>

lemma digit_char:
  assumes "d < 10"
  shows "is_digit (''0123456789'' ! d) \<and> digit_val (''0123456789'' ! d) = d"
proof -
  from assms
  have "d = 0 \<or> d = 1 \<or> d = 2 \<or> d = 3 \<or> d = 4 \<or> d = 5 \<or> d = 6 \<or> d = 7 \<or> d = 8 \<or> d = 9"
    by arith
  then show ?thesis
    by (elim disjE) (simp_all add: is_digit_def digit_val_def)
qed

lemma nat_of_digits_snoc: "nat_of_digits (s @ [c]) = 10 * nat_of_digits s + digit_val c"
  by (simp add: nat_of_digits_def)

lemma str_nat_digits:
  "list_all is_digit (str_nat n) \<and> str_nat n \<noteq> [] \<and> nat_of_digits (str_nat n) = n"
proof (induction n rule: str_nat.induct)
  case (1 n)
  show ?case
  proof (cases "n < 10")
    case True
    then have eq: "str_nat n = [''0123456789'' ! n]"
      by (subst str_nat.simps) simp
    from True show ?thesis
      unfolding eq by (simp add: digit_char nat_of_digits_def)
  next
    case False
    have m: "n mod 10 < 10" by simp
    from False 1
    have ih: "list_all is_digit (str_nat (n div 10))" "nat_of_digits (str_nat (n div 10)) = n div 10"
      by simp_all
    from False have eq: "str_nat n = str_nat (n div 10) @ [''0123456789'' ! (n mod 10)]"
      by (subst str_nat.simps) simp
    show ?thesis
      unfolding eq using ih m by (simp add: nat_of_digits_snoc digit_char)
  qed
qed

lemma link_target_str_nat: "data_num l = Some (str_nat n) \<Longrightarrow> link_target l = Some n"
  using str_nat_digits [of n] by (simp add: link_target_def py_isdigit_def)

lemma next_page_found_iff:
  "next_page_found ls cur = (\<exists>l \<in> set ls. link_target l = Some (cur + 1) \<and> \<not> click_raises l)"
  by (induction ls) auto

lemma css_next_imp:
  assumes "css_next ls cur"
  shows "\<exists>l \<in> set ls. link_target l = Some (cur + 1) \<and> \<not> click_raises l"
proof -
  from assms obtain l where f: "List.find (\<lambda>l. data_num l = Some (str_nat (cur + 1))) ls = Some l"
    and c: "\<not> click_raises l"
    by (auto simp: css_next_def split: option.splits)
  from f have "l \<in> set ls" "data_num l = Some (str_nat (cur + 1))"
    by (auto simp: find_Some_iff)
  with c link_target_str_nat show ?thesis by blast
qed

lemma no_control_no_advance: "no_next_control pg cur \<Longrightarrow> \<not> advance pg cur"
  using css_next_imp [of "page_links pg" cur] next_page_found_iff [of "page_links pg" cur]
  by (auto simp: advance_def no_next_control_def list_ex_iff)

lemma traverse_walk:
  assumes adv: "\<forall>i. j \<le> i \<and> i < k \<longrightarrow> \<not> procesos_raise (st i) \<and> advance (st i) i"
    and jk: "j \<le> k"
  shows "traverse st j acc = traverse st k (foldl (\<lambda>a pg. collect pg a) acc (map st [j..<k]))"
  using adv jk
proof (induction "k - j" arbitrary: j acc)
  case 0
  then show ?case by simp
next
  case (Suc d)
  then have lt: "j < k" by simp
  with Suc.prems have here: "\<not> procesos_raise (st j)" "advance (st j) j" by auto
  have step: "traverse st j acc = traverse st (j + 1) (collect (st j) acc)"
    by (subst traverse.simps) (simp add: here)
  have "traverse st (j + 1) (collect (st j) acc) =
        traverse st k (foldl (\<lambda>a pg. collect pg a) (collect (st j) acc) (map st [j + 1..<k]))"
    using Suc.hyps(2) Suc.prems lt by (intro Suc.hyps(1)) auto
  with step lt show ?case by (simp add: upt_conv_Cons)
qed

lemma traverse_stop:
  assumes "procesos_raise (st k) \<or> \<not> advance (st k) k"
  shows "traverse st k acc = Some (k, if procesos_raise (st k) then acc else collect (st k) acc)"
  using assms by (subst traverse.simps) auto

lemma foldl_collect:
  "foldl (\<lambda>a pg. collect pg a) acc pgs =
     acc @ map page_source (filter (\<lambda>pg. bq_proceso pg \<noteq> 0 \<or> proceso_container pg \<noteq> 0) pgs)"
  by (induction pgs arbitrary: acc) (auto simp: collect_def)

lemma traverse_to_stop:
  assumes k: "1 \<le> k"
    and adv: "\<forall>i. 1 \<le> i \<and> i < k \<longrightarrow> \<not> procesos_raise (st i) \<and> advance (st i) i"
    and stop: "procesos_raise (st k) \<or> \<not> advance (st k) k"
  shows "traverse st 1 [] =
           Some (k, if procesos_raise (st k)
                    then foldl (\<lambda>a pg. collect pg a) [] (map st [1..<k])
                    else collected st k)"
proof -
  have w: "traverse st 1 [] = traverse st k (foldl (\<lambda>a pg. collect pg a) [] (map st [1..<k]))"
    using adv k by (rule traverse_walk)
  from k have up: "[1..<Suc k] = [1..<k] @ [k]" by simp
  have c: "collect (st k) (foldl (\<lambda>a pg. collect pg a) [] (map st [1..<k])) = collected st k"
    unfolding collected_def up foldl_collect by (simp add: collect_def)
  note t = traverse_stop [of st k "foldl (\<lambda>a pg. collect pg a) [] (map st [1..<k])", OF stop]
  show ?thesis
    unfolding w t c by simp
qed

lemma traverse_halts:
  assumes k: "1 \<le> k" and last: "no_next_control (st k) k"
  shows "\<exists>k' srcs. k' \<le> k \<and> traverse st 1 [] = Some (k', srcs)"
proof -
  define stops where "stops i = (1 \<le> i \<and> (procesos_raise (st i) \<or> \<not> advance (st i) i))" for i
  from k last have sk: "stops k"
    by (simp add: stops_def no_control_no_advance)
  define k' where "k' = (LEAST i. stops i)"
  from sk have s': "stops k'" unfolding k'_def by (rule LeastI)
  from sk have le: "k' \<le> k" unfolding k'_def by (rule Least_le)
  have before: "\<forall>i. 1 \<le> i \<and> i < k' \<longrightarrow> \<not> procesos_raise (st i) \<and> advance (st i) i"
  proof (intro allI impI)
    fix i assume i: "1 \<le> i \<and> i < k'"
    then have "\<not> stops i" unfolding k'_def using not_less_Least by blast
    with i show "\<not> procesos_raise (st i) \<and> advance (st i) i" by (simp add: stops_def)
  qed
  from s' have "1 \<le> k'" "procesos_raise (st k') \<or> \<not> advance (st k') k'"
    by (simp_all add: stops_def)
  from traverse_to_stop [of k' st, OF this(1) before this(2)] le show ?thesis by blast
qed

text \<open>
  C3. When page \<open>k\<close> (\<open>k \<ge> 1\<close>) has no pagination control whose target page number is
  \<open>k + 1\<close>, the traversal loop returns, at a page not beyond \<open>k\<close>. When moreover the loop
  got through every page before \<open>k\<close> (it raised on none and followed the control to the
  next page), it halts at page \<open>k\<close>, and, unless looking up the items of page \<open>k\<close> raises,
  with the sources of exactly the pages 1 to \<open>k\<close> that show items. No assumption is made
  on the number of items of any page: a page without items does not stop the loop.
\<close>

theorem traverse_halts_after_last_page:
  assumes "1 \<le> k" and "no_next_control (st k) k"
  shows "(\<exists>k' srcs. k' \<le> k \<and> traverse st 1 [] = Some (k', srcs)) \<and>
         ((\<forall>i. 1 \<le> i \<and> i < k \<longrightarrow> \<not> procesos_raise (st i) \<and> advance (st i) i) \<longrightarrow>
            (\<exists>srcs. traverse st 1 [] = Some (k, srcs)) \<and>
            (\<not> procesos_raise (st k) \<longrightarrow> traverse st 1 [] = Some (k, collected st k)))"
proof (intro conjI impI)
  show "\<exists>k' srcs. k' \<le> k \<and> traverse st 1 [] = Some (k', srcs)"
    using assms by (rule traverse_halts)
next
  assume adv: "\<forall>i. 1 \<le> i \<and> i < k \<longrightarrow> \<not> procesos_raise (st i) \<and> advance (st i) i"
  from assms(2) have stop: "procesos_raise (st k) \<or> \<not> advance (st k) k"
    by (simp add: no_control_no_advance)
  note t = traverse_to_stop [of k st, OF assms(1) adv stop]
  from t show "\<exists>srcs. traverse st 1 [] = Some (k, srcs)" by blast
  assume "\<not> procesos_raise (st k)"
  with t show "traverse st 1 [] = Some (k, collected st k)" by simp
qed

lemma ejemplo_link_target:
  "link_target \<lparr>data_num = Some ''1'', click_raises = False\<rparr> = Some 1"
  "link_target \<lparr>data_num = Some ''2'', click_raises = False\<rparr> = Some 2"
  by (simp_all add: link_target_def py_isdigit_def is_digit_def nat_of_digits_def digit_val_def)

theorem traverse_halts_after_last_page_witness:
  "(1::nat) \<le> 2 \<and> no_next_control (ejemplo_site 2) 2 \<and>
   \<not> procesos_raise (ejemplo_site 1) \<and> advance (ejemplo_site 1) 1 \<and>
   \<not> procesos_raise (ejemplo_site 2) \<and>
   bq_proceso (ejemplo_site 1) = 0 \<and> proceso_container (ejemplo_site 1) = 0 \<and>
   traverse ejemplo_site 1 [] = Some (2, [''p2''])"
proof -
  have n: "no_next_control (ejemplo_site 2) 2"
    by (simp add: no_next_control_def ejemplo_site_def ejemplo_link_target)
  have a: "\<not> procesos_raise (ejemplo_site 1) \<and> advance (ejemplo_site 1) 1"
    by (simp add: ejemplo_site_def advance_def ejemplo_link_target)
  have b: "\<forall>i. 1 \<le> i \<and> i < 2 \<longrightarrow> \<not> procesos_raise (ejemplo_site i) \<and> advance (ejemplo_site i) i"
  proof (intro allI impI)
    fix i :: nat assume "1 \<le> i \<and> i < 2"
    then have "i = 1" by arith
    with a show "\<not> procesos_raise (ejemplo_site i) \<and> advance (ejemplo_site i) i" by simp
  qed
  have p: "\<not> procesos_raise (ejemplo_site 2)"
    by (simp add: ejemplo_site_def)
  have c: "collected ejemplo_site 2 = [''p2'']"
    by (simp add: collected_def ejemplo_site_def upt_conv_Cons)
  have z: "bq_proceso (ejemplo_site 1) = 0 \<and> proceso_container (ejemplo_site 1) = 0"
    by (simp add: ejemplo_site_def)
  from traverse_halts_after_last_page [of 2 ejemplo_site] n b p
  have "traverse ejemplo_site 1 [] = Some (2, collected ejemplo_site 2)" by simp
  with n a p c z show ?thesis by simp
qed

section \<open>What skips an item, and the defaults of the other fields\<close>

lemma no_block_find:
  assumes "no_block primary secondary p"
  shows "or_else (find_cls ''div'' primary p) (find_cls ''div'' secondary p) = None"
  using assms by (auto simp: no_block_def or_else_def find_cls_def list_ex_iff find_None_iff split: option.splits)

lemma extract_item_isl:
  "isl (extract_item p) = (case title_anchor p of None \<Rightarrow> True | Some a \<Rightarrow> get_href a = [])"
  by (simp add: extract_item_def title_anchor_def get_href_def or_else_def find_cls_def find_name_def
      split: option.splits)

lemma extract_item_fields:
  assumes "extract_item p = Inr r"
  shows "fecha_publicacion r = fst (extract_fechas p)" "fecha_cierre r = snd (extract_fechas p)"
    "estado r = extract_estado p" "comentarios r = Some (extract_comentarios p)"
  using assms by (auto simp: extract_item_def split: option.splits if_splits)

lemma extract_comentarios_not_int:
  assumes "comentarios_num_div p = Some num_div" and "py_int (py_strip (get_text num_div)) = None"
  shows "extract_comentarios p = 0"
  using assms
  by (auto simp: extract_comentarios_def comentarios_num_div_def find_cls_def split: option.splits)

lemma extract_item_kept:
  assumes "p \<in> set (find_procesos (bs html_content))" and "extract_item p = Inr r"
  shows "url r \<in> set (map url (parse_normativa bs html_content))"
  using assms unfolding parse_normativa_urls has_item_iff by blast

text \<open>
  C6. An item container is skipped exactly when it has no title anchor (no header block,
  or no \<open>a\<close> below it) or the anchor's \<open>href\<close> is empty or missing. For an item that is not
  skipped: without a date block both dates are the empty string, without a status block
  the status is the empty string, without a comment-count block the count is 0, a count
  text that \<open>int\<close> rejects gives 0 (the ValueError does not leave the extractor), and
  the url of the item is among the urls of the records returned for its document.
\<close>

theorem extract_item_skip_and_defaults:
  "(isl (extract_item p) \<longleftrightarrow> (case title_anchor p of None \<Rightarrow> True | Some a \<Rightarrow> get_href a = [])) \<and>
   (\<forall>r. extract_item p = Inr r \<longrightarrow>
      (no_block ''bq-normaFechas'' ''fechas-container'' p \<longrightarrow>
         fecha_publicacion r = [] \<and> fecha_cierre r = []) \<and>
      (no_block ''estado-container'' ''estado'' p \<longrightarrow> estado r = []) \<and>
      (no_block ''respuestasContainer'' ''comentarios'' p \<longrightarrow> comentarios r = Some 0) \<and>
      (\<forall>num_div. comentarios_num_div p = Some num_div \<longrightarrow>
         py_int (py_strip (get_text num_div)) = None \<longrightarrow> comentarios r = Some 0) \<and>
      (p \<in> set (find_procesos (bs html_content)) \<longrightarrow>
         url r \<in> set (map url (parse_normativa bs html_content))))"
proof (intro conjI allI impI)
  show "isl (extract_item p) \<longleftrightarrow> (case title_anchor p of None \<Rightarrow> True | Some a \<Rightarrow> get_href a = [])"
    by (rule extract_item_isl)
next
  fix r assume r: "extract_item p = Inr r"
  note f = extract_item_fields [OF r]
  {
    assume "no_block ''bq-normaFechas'' ''fechas-container'' p"
    then have "extract_fechas p = ([], [])"
      by (simp add: extract_fechas_def no_block_find)
    with f show "fecha_publicacion r = []" and "fecha_cierre r = []" by simp_all
  }
  {
    assume "no_block ''estado-container'' ''estado'' p"
    then have "extract_estado p = []"
      by (simp add: extract_estado_def no_block_find)
    with f show "estado r = []" by simp
  }
  {
    assume "no_block ''respuestasContainer'' ''comentarios'' p"
    then have "extract_comentarios p = 0"
      by (simp add: extract_comentarios_def no_block_find)
    with f show "comentarios r = Some 0" by simp
  }
  {
    fix num_div
    assume "comentarios_num_div p = Some num_div" "py_int (py_strip (get_text num_div)) = None"
    then have "extract_comentarios p = 0" by (rule extract_comentarios_not_int)
    with f show "comentarios r = Some 0" by simp
  }
  {
    assume "p \<in> set (find_procesos (bs html_content))"
    then show "url r \<in> set (map url (parse_normativa bs html_content))"
      using r by (rule extract_item_kept)
  }
qed

theorem extract_item_skip_and_defaults_witness:
  "title_anchor (Tag ''div'' [] []) = None \<and> isl (extract_item (Tag ''div'' [] [])) \<and>
   no_block ''bq-normaFechas'' ''fechas-container'' (ejemplo_item ''/u'') \<and>
   no_block ''estado-container'' ''estado'' (ejemplo_item ''/u'') \<and>
   no_block ''respuestasContainer'' ''comentarios'' (ejemplo_item ''/u'') \<and>
   ejemplo_item ''/u'' \<in> set (find_procesos (ejemplo_bs ''/u'')) \<and>
   (\<exists>r. extract_item (ejemplo_item ''/u'') = Inr r \<and> fecha_publicacion r = [] \<and>
        fecha_cierre r = [] \<and> estado r = [] \<and> comentarios r = Some 0 \<and>
        url r \<in> set (map url (parse_normativa ejemplo_bs ''/u''))) \<and>
   (\<exists>n. comentarios_num_div ejemplo_abc = Some n \<and> py_int (py_strip (get_text n)) = None) \<and>
   (\<exists>r. extract_item ejemplo_abc = Inr r \<and> comentarios r = Some 0)"
proof -
  have t: "title_anchor (Tag ''div'' [] []) = None"
    by (simp add: title_anchor_def)
  from extract_item_skip_and_defaults [of "Tag ''div'' [] []", THEN conjunct1] t
  have s: "isl (extract_item (Tag ''div'' [] []))" by simp
  have nb: "no_block ''bq-normaFechas'' ''fechas-container'' (ejemplo_item ''/u'')"
    "no_block ''estado-container'' ''estado'' (ejemplo_item ''/u'')"
    "no_block ''respuestasContainer'' ''comentarios'' (ejemplo_item ''/u'')"
    by (simp_all add: no_block_def ejemplo_item_def matches_def classes_def py_isspace_def)
  have m: "ejemplo_item ''/u'' \<in> set (find_procesos (ejemplo_bs ''/u''))"
    by (simp add: ejemplo_bs_page ejemplo_find_procesos)
  obtain r where r: "extract_item (ejemplo_item ''/u'') = Inr r"
    by (simp add: ejemplo_extract)
  note d = extract_item_skip_and_defaults [of "ejemplo_item ''/u''" ejemplo_bs "''/u''",
      THEN conjunct2, rule_format, OF r]
  from d nb m have dr: "fecha_publicacion r = [] \<and> fecha_cierre r = [] \<and> estado r = [] \<and>
      comentarios r = Some 0 \<and> url r \<in> set (map url (parse_normativa ejemplo_bs ''/u''))"
    by blast
  have n: "comentarios_num_div ejemplo_abc = Some (Tag ''div'' [(''class'', ''bq-statics-number'')] [Text ''abc''])"
    by (simp add: comentarios_num_div_def ejemplo_abc_def or_else_def matches_def classes_def
        py_isspace_def)
  have i: "py_int (py_strip (get_text (Tag ''div'' [(''class'', ''bq-statics-number'')] [Text ''abc'']))) = None"
    by (simp add: py_int_def py_strip_def py_isspace_def is_digit_def)
  obtain q where q: "extract_item ejemplo_abc = Inr q"
    by (simp add: extract_item_def ejemplo_abc_def find_cls_def find_name_def or_else_def
        matches_def matches_name_def classes_def py_isspace_def)
  note a = extract_item_skip_and_defaults [of ejemplo_abc ejemplo_bs "''/u''",
      THEN conjunct2, rule_format, OF q]
  from a n i have "comentarios q = Some 0" by blast
  with t s nb m r dr n i q show ?thesis by blast
qed

lemma ejemplo_extract_completo: "extract_item ejemplo_completo = Inr ejemplo_normativa"
  by (simp add: extract_item_def ejemplo_completo_def ejemplo_normativa_def find_cls_def
      find_name_def or_else_def matches_def matches_name_def classes_def py_isspace_def
      py_strip_def extract_fechas_def fecha_of_def extract_estado_def extract_comentarios_def
      py_int_def is_digit_def nat_of_digits_def digit_val_def)

lemma ejemplo_parse_completo: "parse_normativa ejemplo_bs ''+'' = [ejemplo_normativa]"
proof -
  have "find_procesos (ejemplo_bs ''+'') = [ejemplo_completo]"
    by (simp add: ejemplo_bs_def ejemplo_line_def find_procesos_def find_all_def
        soup_descendants_def ejemplo_completo_def matches_def classes_def py_isspace_def)
  then show ?thesis
    by (simp add: parse_normativa_def add_proceso_def ejemplo_extract_completo)
qed

section \<open>Normalization keeps every record, in order\<close>

lemma all_rows_Some: "all_rows os = Some ys \<Longrightarrow> os = map Some ys"
proof (induction os arbitrary: ys)
  case Nil
  then show ?case by simp
next
  case (Cons o1 os)
  then show ?case by (cases o1) auto
qed

lemma all_rows_None: "None \<in> set os \<Longrightarrow> all_rows os = None"
proof (induction os)
  case Nil
  then show ?case by simp
next
  case (Cons o1 os)
  then show ?case by (cases o1) auto
qed

lemma all_rows_map_option: "all_rows (map (map_option f) os) = map_option (map f) (all_rows os)"
proof (induction os)
  case Nil
  then show ?case by simp
next
  case (Cons o1 os)
  then show ?case by (cases o1; cases "all_rows os") auto
qed

lemma transform_data_Some:
  assumes "transform_data L now normativas = Some df"
  shows "normativas \<noteq> []" and "map (transform_row L now) normativas = map Some df"
  using assms
  by (auto simp: transform_data_def transform_frame_def split: if_splits option.splits sum.splits
      dest: all_rows_Some)

lemma transform_row_url: "transform_row L now n = Some d \<Longrightarrow> n_url d = url n"
  by (auto simp: transform_row_def split: option.splits)

lemma rows_urls:
  "map (transform_row L now) normativas = map Some df \<Longrightarrow> map n_url df = map url normativas"
proof (induction normativas arbitrary: df)
  case Nil
  then show ?case by simp
next
  case (Cons n ns)
  then obtain d ds where "df = d # ds" by (cases df) auto
  with Cons show ?case by (auto simp: transform_row_url)
qed

lemma transform_row_bad_date:
  assumes "pl_strptime L (fecha_publicacion n) = None \<or> pl_strptime L (fecha_cierre n) = None"
  shows "transform_row L now n = None"
  using assms by (auto simp: transform_row_def split: option.splits)

lemma transform_data_bad_date:
  assumes "n \<in> set normativas"
    and "pl_strptime L (fecha_publicacion n) = None \<or> pl_strptime L (fecha_cierre n) = None"
  shows "transform_data L now normativas = None"
proof -
  from assms have "None \<in> set (map (transform_row L now) normativas)"
    using transform_row_bad_date [of L n now] by force
  then have "all_rows (map (transform_row L now) normativas) = None" by (rule all_rows_None)
  then show ?thesis by (simp add: transform_data_def transform_frame_def)
qed

lemma fixed_dmy_ejemplo:
  "fixed_dmy ''05/03/2024'' = Some (Date 2024 3 5)"
  "fixed_dmy ''20/03/2024'' = Some (Date 2024 3 20)"
  "fixed_dmy ''05/03/0000'' = Some (Date 0 3 5)"
  by (simp_all add: fixed_dmy_def is_digit_def nat_of_digits_def digit_val_def days_in_month_def
      is_leap_def)

lemma pl_strptime_ejemplo:
  "pl_strptime L ''05/03/2024'' = Some (Date 2024 3 5)"
  "pl_strptime L ''20/03/2024'' = Some (Date 2024 3 20)"
  "pl_strptime L ''05/03/0000'' = Some (Date 0 3 5)"
  "pl_strptime L [] = None"
  by (simp_all add: pl_strptime_def fixed_dmy_ejemplo)

lemma transform_row_ejemplo:
  "transform_row L now ejemplo_normativa =
     Some \<lparr> n_titulo = ''Norma uno'', n_url = ''/u'', n_fecha_publicacion = Date 2024 3 5,
            n_fecha_cierre = Date 2024 3 20, n_estado = ''Activa'', n_comentarios = 3,
            entidad = ''Ministerio de Agricultura y Desarrollo Rural'', sector = ''Agropecuario'',
            fecha_extraccion = now \<rparr>"
  by (simp add: transform_row_def ejemplo_normativa_def pl_strptime_ejemplo cast_int32_def
      fill_null_def clean_titulo_def str_strip_def is_white_space_def)

text \<open>
  C1 as the code has it. \<open>transform_data\<close> takes no record away: when it returns a
  frame, the frame has the urls of the input records, one row for each record, in the
  order of the input. So the frame has at most one row for each url when the input has
  at most one record for each url, as every list that \<open>parse_normativa\<close> returns has.
\<close>

theorem transform_data_keeps_urls:
  assumes "transform_data L now normativas = Some df"
  shows "map n_url df = map url normativas \<and>
         (distinct (map n_url df) \<longleftrightarrow> distinct (map url normativas)) \<and>
         (normativas = parse_normativa bs html_content \<longrightarrow> distinct (map n_url df))"
proof -
  from assms have u: "map n_url df = map url normativas"
    by (intro rows_urls [of L now] transform_data_Some)
  then show ?thesis by (simp add: parse_normativa_distinct)
qed

text \<open>Two records with one url both reach the output, whatever the library: no dedup is
  applied.\<close>

theorem transform_data_dedup_counterexample:
  "\<forall>L. \<exists>df. transform_data L 0 [ejemplo_normativa, ejemplo_normativa] = Some df \<and>
        map n_url df = [''/u'', ''/u''] \<and> \<not> distinct (map n_url df)"
  by (simp add: transform_data_def transform_frame_def transform_row_ejemplo)

theorem transform_data_keeps_urls_witness:
  "parse_normativa ejemplo_bs ''+'' = [ejemplo_normativa] \<and>
   (\<exists>df. transform_data ejemplo_library 7 (parse_normativa ejemplo_bs ''+'') = Some df \<and>
         map n_url df = [''/u''] \<and> distinct (map n_url df)) \<and>
   (\<exists>df. transform_data ejemplo_library 7 [ejemplo_normativa, ejemplo_normativa\<lparr>url := ''/v''\<rparr>] = Some df \<and>
         map n_url df = [''/u'', ''/v''] \<and> distinct (map n_url df))"
proof -
  have p: "parse_normativa ejemplo_bs ''+'' = [ejemplo_normativa]"
    by (rule ejemplo_parse_completo)
  obtain df where d: "transform_data ejemplo_library 7 (parse_normativa ejemplo_bs ''+'') = Some df"
    by (simp add: p transform_data_def transform_frame_def transform_row_ejemplo)
  have e: "map url (parse_normativa ejemplo_bs ''+'') = [''/u'']"
    by (simp add: p ejemplo_normativa_def)
  from transform_data_keeps_urls [OF d, of ejemplo_bs "''+''"] e
  have one: "map n_url df = [''/u''] \<and> distinct (map n_url df)" by simp
  have r2: "transform_row ejemplo_library 7 (ejemplo_normativa\<lparr>url := ''/v''\<rparr>) \<noteq> None"
    by (simp add: transform_row_def ejemplo_normativa_def pl_strptime_ejemplo cast_int32_def)
  then obtain df2 where d2:
    "transform_data ejemplo_library 7 [ejemplo_normativa, ejemplo_normativa\<lparr>url := ''/v''\<rparr>] = Some df2"
    by (auto simp: transform_data_def transform_frame_def transform_row_ejemplo)
  have e2: "map url [ejemplo_normativa, ejemplo_normativa\<lparr>url := ''/v''\<rparr>] = [''/u'', ''/v'']"
    by (simp add: ejemplo_normativa_def)
  from transform_data_keeps_urls [OF d2, of ejemplo_bs "''+''"] e2
  have two: "map n_url df2 = [''/u'', ''/v''] \<and> distinct (map n_url df2)" by simp
  have x1: "\<exists>df. transform_data ejemplo_library 7 (parse_normativa ejemplo_bs ''+'') = Some df \<and>
         map n_url df = [''/u''] \<and> distinct (map n_url df)"
    using d one by (intro exI [of _ df]) simp
  have x2: "\<exists>df. transform_data ejemplo_library 7 [ejemplo_normativa, ejemplo_normativa\<lparr>url := ''/v''\<rparr>] = Some df \<and>
         map n_url df = [''/u'', ''/v''] \<and> distinct (map n_url df)"
    using d2 two by (intro exI [of _ df2]) simp
  from p x1 x2 show ?thesis by (intro conjI)
qed

section \<open>A date text the library rejects\<close>

lemma save_to_csv_bad_date:
  assumes "n \<in> set normativas"
    and "pl_strptime L (fecha_publicacion n) = None \<or> pl_strptime L (fecha_cierre n) = None"
  shows "save_to_csv L now normativas w = (None, w)"
  using transform_data_bad_date [OF assms] by (simp add: save_to_csv_def)

lemma run_saves:
  assumes "get_page_content attempts = Some content" and "content \<noteq> []"
    and "parse_normativa bs content \<noteq> []"
    and "save_to_csv L now (parse_normativa bs content)
           (save_to_json (parse_normativa bs content) w) = (x, w')"
  shows "run L bs now attempts w =
           (case x of None \<Rightarrow> Inr Finalizado | Some e \<Rightarrow> Inl e, w'\<lparr>driver_open := False\<rparr>)"
  using assms by (simp add: run_def split: option.splits)

text \<open>
  C2 as the code has it. When the library rejects the publication or closing date text
  of some record, as it does the empty text of an item without a date block,
  \<open>transform_data\<close> returns None for the whole list: no frame is built, and no record is
  left out of one. The error is caught inside \<open>transform_data\<close>, not raised:
  \<open>save_to_csv\<close> then returns without writing the CSV or the statistics, and a run that
  extracted such a list has written the JSON dump before, returns normally through its
  last statement and raises nothing.
\<close>

theorem transform_data_bad_date_none:
  assumes "n \<in> set normativas"
    and "pl_strptime L (fecha_publicacion n) = None \<or> pl_strptime L (fecha_cierre n) = None"
  shows "transform_data L now normativas = None \<and>
         save_to_csv L now normativas w = (None, w) \<and>
         (get_page_content attempts = Some content \<longrightarrow> content \<noteq> [] \<longrightarrow>
          parse_normativa bs content = normativas \<longrightarrow>
            run L bs now attempts w =
              (Inr Finalizado, w\<lparr>json_file := Some normativas, driver_open := False\<rparr>))"
proof (intro conjI impI)
  show "transform_data L now normativas = None"
    using assms by (rule transform_data_bad_date)
  show c: "save_to_csv L now normativas w = (None, w)" for w
    using assms by (rule save_to_csv_bad_date)
  assume g: "get_page_content attempts = Some content" "content \<noteq> []"
    and p: "parse_normativa bs content = normativas"
  from assms(1) have ne: "normativas \<noteq> []" by auto
  with p have q: "parse_normativa bs content \<noteq> []" by simp
  have s: "save_to_csv L now (parse_normativa bs content)
             (save_to_json (parse_normativa bs content) w) = (None, save_to_json normativas w)"
    unfolding p by (rule c)
  from run_saves [OF g q s]
  show "run L bs now attempts w =
          (Inr Finalizado, w\<lparr>json_file := Some normativas, driver_open := False\<rparr>)"
    using ne by (simp add: save_to_json_def)
qed

lemma retry_ejemplo:
  "retry_with_delay (ejemplo_attempts content) 3 5 =
     \<lparr>result = Inr (Some content), calls = 3, sleeps = [5, 5]\<rparr>"
  by (simp add: retry_with_delay_def retry_from.simps ejemplo_attempts_def)

lemma get_page_content_ejemplo: "get_page_content (ejemplo_attempts content) = Some content"
  by (simp add: get_page_content_def retry_ejemplo)

lemma ejemplo_parse_item:
  "parse_normativa ejemplo_bs ''/u'' =
     [\<lparr>titulo = ''Norma'', url = ''/u'', fecha_publicacion = [], fecha_cierre = [],
       estado = [], comentarios = Some 0\<rparr>]"
  by (simp add: parse_normativa_def ejemplo_bs_page ejemplo_find_procesos find_all_def
      soup_descendants_def add_proceso_def ejemplo_extract)

text \<open>An item without a date block gives a record with empty dates, which no library
  reads; the run writes the dump, writes no CSV, raises nothing and ends through its
  last statement.\<close>

theorem run_bad_date_counterexample:
  "\<forall>L. map fecha_publicacion (parse_normativa ejemplo_bs ''/u'') = [[]] \<and>
        pl_strptime L [] = None \<and>
        run L ejemplo_bs 0 (ejemplo_attempts ''/u'') ejemplo_world =
          (Inr Finalizado,
           \<lparr> json_file = Some [\<lparr>titulo = ''Norma'', url = ''/u'', fecha_publicacion = [],
                                 fecha_cierre = [], estado = [], comentarios = Some 0\<rparr>],
             csv_file = None, stats_file = None, driver_open = False \<rparr>)"
  by (simp add: run_def get_page_content_ejemplo ejemplo_parse_item pl_strptime_ejemplo
      save_to_json_def save_to_csv_def transform_data_def transform_frame_def transform_row_def
      ejemplo_world_def)

theorem transform_data_bad_date_none_witness:
  "ejemplo_sin_cierre \<in> set [ejemplo_normativa, ejemplo_sin_cierre] \<and>
   pl_strptime ejemplo_library (fecha_cierre ejemplo_sin_cierre) = None \<and>
   transform_data ejemplo_library 0 [ejemplo_normativa, ejemplo_sin_cierre] = None \<and>
   save_to_csv ejemplo_library 0 [ejemplo_normativa, ejemplo_sin_cierre] ejemplo_world =
     (None, ejemplo_world) \<and>
   get_page_content (ejemplo_attempts ''/u'') = Some ''/u'' \<and>
   run ejemplo_library ejemplo_bs 0 (ejemplo_attempts ''/u'') ejemplo_world =
     (Inr Finalizado, ejemplo_world\<lparr>json_file := Some (parse_normativa ejemplo_bs ''/u''),
                                     driver_open := False\<rparr>)"
proof -
  have m: "ejemplo_sin_cierre \<in> set [ejemplo_normativa, ejemplo_sin_cierre]" by simp
  have b: "pl_strptime ejemplo_library (fecha_cierre ejemplo_sin_cierre) = None"
    by (simp add: ejemplo_sin_cierre_def pl_strptime_ejemplo)
  then have b': "pl_strptime ejemplo_library (fecha_publicacion ejemplo_sin_cierre) = None \<or>
      pl_strptime ejemplo_library (fecha_cierre ejemplo_sin_cierre) = None" by simp
  note t1 = transform_data_bad_date_none [OF m b', of 0 ejemplo_world]
  have m2: "hd (parse_normativa ejemplo_bs ''/u'') \<in> set (parse_normativa ejemplo_bs ''/u'')"
    by (simp add: ejemplo_parse_item)
  have b2: "pl_strptime ejemplo_library (fecha_publicacion (hd (parse_normativa ejemplo_bs ''/u''))) = None \<or>
      pl_strptime ejemplo_library (fecha_cierre (hd (parse_normativa ejemplo_bs ''/u''))) = None"
    by (simp add: ejemplo_parse_item pl_strptime_ejemplo)
  have g: "get_page_content (ejemplo_attempts ''/u'') = Some ''/u''"
    by (rule get_page_content_ejemplo)
  note t2 = transform_data_bad_date_none [OF m2 b2, of 0 ejemplo_world "ejemplo_attempts ''/u''" "''/u''" ejemplo_bs,
      THEN conjunct2, THEN conjunct2, rule_format, OF g]
  from t2 have r: "run ejemplo_library ejemplo_bs 0 (ejemplo_attempts ''/u'') ejemplo_world =
     (Inr Finalizado, ejemplo_world\<lparr>json_file := Some (parse_normativa ejemplo_bs ''/u''),
                                     driver_open := False\<rparr>)"
    by simp
  from t1 m b g r show ?thesis by blast
qed

section \<open>A date the library reads and Python cannot hold\<close>

text \<open>
  The text "05/03/0000" is of the fixed form, so the frame is built and the CSV written;
  the statistics then hand the year 0 to Python. Where the library panics, the panic
  passes the \<open>except Exception\<close> clause of \<open>save_to_csv\<close> and leaves it, with the CSV
  written and no statistics; where it raises, the call returns with the same files.
  \<open>run\<close> passes an exception of \<open>save_to_csv\<close> on, with the browser closed.
\<close>

lemma transform_data_anno_cero:
  "transform_data L now [ejemplo_anno_cero] =
     Some [\<lparr> n_titulo = ''Norma uno'', n_url = ''/u'', n_fecha_publicacion = Date 0 3 5,
             n_fecha_cierre = Date 2024 3 20, n_estado = ''Activa'', n_comentarios = 3,
             entidad = ''Ministerio de Agricultura y Desarrollo Rural'', sector = ''Agropecuario'',
             fecha_extraccion = now \<rparr>]"
  by (simp add: transform_data_def transform_frame_def transform_row_def ejemplo_anno_cero_def
      ejemplo_normativa_def pl_strptime_ejemplo cast_int32_def fill_null_def clean_titulo_def
      str_strip_def is_white_space_def)

lemma save_to_csv_anno_cero:
  "save_to_csv L now [ejemplo_anno_cero] w =
     (case out_of_range L (Date 0 3 5) of Raises \<Rightarrow> None | Panics \<Rightarrow> Some Panic_Exception,
      w\<lparr>csv_file := transform_data L now [ejemplo_anno_cero]\<rparr>)"
  by (simp add: save_to_csv_def transform_data_anno_cero write_stats_def stats_of_def
      to_python_def caught_def split: failure.splits)

lemma run_raises:
  assumes "get_page_content attempts = Some content" and "content \<noteq> []"
    and "parse_normativa bs content \<noteq> []"
    and "save_to_csv L now (parse_normativa bs content)
           (save_to_json (parse_normativa bs content) w) = (Some e, w')"
  shows "run L bs now attempts w = (Inl e, w'\<lparr>driver_open := False\<rparr>)"
  using run_saves [OF assms] by simp

section \<open>No records, no output\<close>

text \<open>
  C10. For the empty list \<open>transform_data\<close> returns None, not an empty frame. A run whose
  content yields no record returns before \<open>save_to_json\<close> and \<open>save_to_csv\<close>: none of the
  three files is written (only the browser is closed), and it does not end through its
  last statement.
\<close>

theorem transform_data_empty_run_no_output:
  "transform_data L now [] = None \<and>
   (get_page_content attempts = Some content \<longrightarrow>
    content = [] \<or> parse_normativa bs content = [] \<longrightarrow>
      (\<exists>x. x \<noteq> Finalizado \<and> run L bs now attempts w = (Inr x, w\<lparr>driver_open := False\<rparr>)))"
  by (auto simp: transform_data_def run_def)

theorem transform_data_empty_run_no_output_witness:
  "get_page_content (ejemplo_attempts ''sin resultados'') = Some ''sin resultados'' \<and>
   parse_normativa ejemplo_bs ''sin resultados'' = [] \<and>
   (\<exists>x. x \<noteq> Finalizado \<and>
        run ejemplo_library ejemplo_bs 0 (ejemplo_attempts ''sin resultados'') ejemplo_world =
          (Inr x, ejemplo_world\<lparr>driver_open := False\<rparr>))"
proof -
  have g: "get_page_content (ejemplo_attempts ''sin resultados'') = Some ''sin resultados''"
    by (rule get_page_content_ejemplo)
  have p: "parse_normativa ejemplo_bs ''sin resultados'' = []"
    by (simp add: parse_normativa_def ejemplo_bs_def ejemplo_line_def find_procesos_def
        find_all_def soup_descendants_def matches_def)
  from transform_data_empty_run_no_output [of ejemplo_library 0 "ejemplo_attempts ''sin resultados''"
      "''sin resultados''" ejemplo_bs ejemplo_world] g p
  show ?thesis by blast
qed

section \<open>The retry policy and what runs under it\<close>

lemma retry_3_first:
  assumes "func 0 = Inr v"
  shows "retry_with_delay func 3 5 = \<lparr>result = Inr (Some v), calls = 1, sleeps = []\<rparr>"
  using assms by (simp add: retry_with_delay_def retry_from.simps)

lemma retry_3_second:
  assumes "func 0 = Inl e" and "func (Suc 0) = Inr v"
  shows "retry_with_delay func 3 5 = \<lparr>result = Inr (Some v), calls = 2, sleeps = [5]\<rparr>"
  using assms by (simp add: retry_with_delay_def retry_from.simps)

lemma retry_3_third:
  assumes "func 0 = Inl e" and "func (Suc 0) = Inl e'" and "func (Suc (Suc 0)) = Inr v"
  shows "retry_with_delay func 3 5 = \<lparr>result = Inr (Some v), calls = 3, sleeps = [5, 5]\<rparr>"
  using assms by (simp add: retry_with_delay_def retry_from.simps)

lemma retry_3_fail:
  assumes "func 0 = Inl e" and "func (Suc 0) = Inl e'" and "func (Suc (Suc 0)) = Inl e''"
  shows "retry_with_delay func 3 5 = \<lparr>result = Inl e'', calls = 3, sleeps = [5, 5]\<rparr>"
  using assms by (simp add: retry_with_delay_def retry_from.simps)

lemma retry_3_policy:
  "1 \<le> calls (retry_with_delay func 3 5) \<and> calls (retry_with_delay func 3 5) \<le> 3 \<and>
   sleeps (retry_with_delay func 3 5) = replicate (calls (retry_with_delay func 3 5) - 1) 5 \<and>
   (\<forall>i. i < calls (retry_with_delay func 3 5) - 1 \<longrightarrow> isl (func i)) \<and>
   result (retry_with_delay func 3 5) =
     (case func (calls (retry_with_delay func 3 5) - 1) of Inl e \<Rightarrow> Inl e | Inr v \<Rightarrow> Inr (Some v)) \<and>
   (isl (result (retry_with_delay func 3 5)) \<longrightarrow> calls (retry_with_delay func 3 5) = 3)"
proof (cases "func 0")
  case (Inr v)
  show ?thesis unfolding retry_3_first [of func, OF Inr] by (simp add: Inr)
next
  case a: (Inl e)
  show ?thesis
  proof (cases "func (Suc 0)")
    case (Inr v)
    show ?thesis unfolding retry_3_second [of func, OF a Inr] by (simp add: a Inr)
  next
    case b: (Inl e')
    show ?thesis
    proof (cases "func (Suc (Suc 0))")
      case (Inr v)
      show ?thesis unfolding retry_3_third [of func, OF a b Inr]
        by (auto simp: a b Inr numeral_2_eq_2 less_Suc_eq)
    next
      case (Inl e'')
      show ?thesis unfolding retry_3_fail [of func, OF a b Inl]
        by (auto simp: a b Inl numeral_2_eq_2 less_Suc_eq)
    qed
  qed
qed

lemma get_page_content_first:
  assumes "attempts 0 = Inr c"
  shows "get_page_content attempts = Some c"
  by (simp add: get_page_content_def retry_3_first [of attempts, OF assms])

lemma get_page_content_second:
  assumes "isl (attempts 0)" and "attempts 1 = Inr c"
  shows "get_page_content attempts = Some c"
proof -
  from assms(1) obtain e where a: "attempts 0 = Inl e" by (cases "attempts 0") auto
  from assms(2) have b: "attempts (Suc 0) = Inr c" by simp
  show ?thesis by (simp add: get_page_content_def retry_3_second [of attempts, OF a b])
qed

lemma get_page_content_third:
  assumes "isl (attempts 0)" and "isl (attempts 1)" and "attempts 2 = Inr c"
  shows "get_page_content attempts = Some c"
proof -
  from assms(1) obtain e where a: "attempts 0 = Inl e" by (cases "attempts 0") auto
  from assms(2) obtain e' where b: "attempts (Suc 0) = Inl e'" by (cases "attempts (Suc 0)") auto
  from assms(3) have c: "attempts (Suc (Suc 0)) = Inr c" by (simp add: numeral_2_eq_2)
  show ?thesis by (simp add: get_page_content_def retry_3_third [of attempts, OF a b c])
qed

lemma get_page_content_fail:
  assumes "isl (attempts 0)" and "isl (attempts 1)" and "isl (attempts 2)"
  shows "get_page_content attempts = None"
proof -
  from assms(1) obtain e where a: "attempts 0 = Inl e" by (cases "attempts 0") auto
  from assms(2) obtain e' where b: "attempts (Suc 0) = Inl e'" by (cases "attempts (Suc 0)") auto
  from assms(3) obtain e'' where c: "attempts (Suc (Suc 0)) = Inl e''"
    by (cases "attempts (Suc (Suc 0))") (auto simp: numeral_2_eq_2)
  show ?thesis by (simp add: get_page_content_def retry_3_fail [of attempts, OF a b c])
qed

lemma get_content_raises:
  assumes "get_content env = Some (Inl e)"
  shows "(get_raises env \<and> e = WebDriver_Exception) \<or>
         (\<not> get_raises env \<and> \<not> sector_ok env \<and> e = Sector_Exception) \<or>
         (\<not> get_raises env \<and> sector_ok env \<and> \<not> entidad_ok env \<and> e = Entidad_Exception)"
  using assms by (auto simp: get_content_def split: if_splits prod.splits)

text \<open>
  C7 as the code has it. One renderer operation runs under the retry policy: the whole
  of \<open>_get_content\<close>, which \<open>get_page_content\<close> calls through \<open>retry_with_delay\<close> with 3
  attempts and a delay of 5. The wrapped function is called at least once and at most 3
  times, a sleep of 5 seconds lies between two attempts and nowhere else, every attempt
  before the last one made failed, and \<open>retry_with_delay\<close> gives the outcome of the last
  attempt made: its value if it returned, its exception, raised after the third
  attempt, if all three failed. \<open>get_page_content\<close> returns the content of the first
  attempt that succeeds and, when all three fail, returns None: the exception does not
  reach its caller. The only exceptions that leave \<open>_get_content\<close>, and so the only
  failures that are tried again, are those of loading the page and of selecting the
  sector and the entity; a failure inside the pagination loop is caught there.
\<close>

theorem get_page_content_retry_policy:
  "1 \<le> calls (retry_with_delay func 3 5) \<and> calls (retry_with_delay func 3 5) \<le> 3 \<and>
   sleeps (retry_with_delay func 3 5) = replicate (calls (retry_with_delay func 3 5) - 1) 5 \<and>
   (\<forall>i. i < calls (retry_with_delay func 3 5) - 1 \<longrightarrow> isl (func i)) \<and>
   result (retry_with_delay func 3 5) =
     (case func (calls (retry_with_delay func 3 5) - 1) of Inl e \<Rightarrow> Inl e | Inr v \<Rightarrow> Inr (Some v)) \<and>
   (isl (result (retry_with_delay func 3 5)) \<longrightarrow> calls (retry_with_delay func 3 5) = 3) \<and>
   (attempts 0 = Inr c \<longrightarrow> get_page_content attempts = Some c) \<and>
   (isl (attempts 0) \<longrightarrow> attempts 1 = Inr c \<longrightarrow> get_page_content attempts = Some c) \<and>
   (isl (attempts 0) \<longrightarrow> isl (attempts 1) \<longrightarrow> attempts 2 = Inr c \<longrightarrow>
      get_page_content attempts = Some c) \<and>
   (isl (attempts 0) \<longrightarrow> isl (attempts 1) \<longrightarrow> isl (attempts 2) \<longrightarrow>
      get_page_content attempts = None) \<and>
   (get_content env = Some (Inl e) \<longrightarrow>
      (get_raises env \<and> e = WebDriver_Exception) \<or>
      (\<not> get_raises env \<and> \<not> sector_ok env \<and> e = Sector_Exception) \<or>
      (\<not> get_raises env \<and> sector_ok env \<and> \<not> entidad_ok env \<and> e = Entidad_Exception))"
  using retry_3_policy [of func] get_page_content_first [of attempts c]
    get_page_content_second [of attempts c] get_page_content_third [of attempts c]
    get_page_content_fail [of attempts] get_content_raises [of env e]
  by blast

lemma traverse_click_falla: "traverse ejemplo_click_falla 1 [] = Some (1, [''p1''])"
proof -
  have t: "link_target \<lparr>data_num = Some ''2'', click_raises = True\<rparr> = Some 2"
    by (simp add: link_target_def py_isdigit_def is_digit_def nat_of_digits_def digit_val_def)
  have a: "\<not> advance (ejemplo_click_falla 1) 1"
    by (simp add: advance_def ejemplo_click_falla_def t)
  have p: "\<not> procesos_raise (ejemplo_click_falla 1)"
    by (simp add: ejemplo_click_falla_def)
  have c: "collect (ejemplo_click_falla 1) [] = [''p1'']"
    by (simp add: collect_def ejemplo_click_falla_def)
  from a have "procesos_raise (ejemplo_click_falla 1) \<or> \<not> advance (ejemplo_click_falla 1) 1"
    by simp
  from traverse_stop [of ejemplo_click_falla 1 "[]", OF this] p c show ?thesis by simp
qed

text \<open>
  A click on the control for page 2 that raises is no failure of \<open>_get_content\<close>: the
  attempt returns the content of page 1, the policy makes one call and no sleep, and
  the click is not tried again. And when every attempt fails, \<open>retry_with_delay\<close> raises
  the last error, but the caller of \<open>get_page_content\<close> gets None.
\<close>

theorem retry_policy_counterexample:
  "link_target \<lparr>data_num = Some ''2'', click_raises = True\<rparr> = Some 2 \<and>
   get_content ejemplo_env = Some (Inr ''p1'') \<and>
   retry_with_delay (\<lambda>i. Inr ''p1'' :: exn + string) 3 5 =
     \<lparr>result = Inr (Some ''p1''), calls = 1, sleeps = []\<rparr> \<and>
   result (retry_with_delay (\<lambda>i. Inl Sector_Exception :: exn + string) 3 5) = Inl Sector_Exception \<and>
   get_page_content (\<lambda>i. Inl Sector_Exception) = None"
proof -
  have t: "link_target \<lparr>data_num = Some ''2'', click_raises = True\<rparr> = Some 2"
    by (simp add: link_target_def py_isdigit_def is_digit_def nat_of_digits_def digit_val_def)
  have g: "get_content ejemplo_env = Some (Inr ''p1'')"
    using traverse_click_falla by (simp add: get_content_def ejemplo_env_def)
  have r: "retry_with_delay (\<lambda>i. Inr ''p1'' :: exn + string) 3 5 =
     \<lparr>result = Inr (Some ''p1''), calls = 1, sleeps = []\<rparr>"
    by (simp add: retry_with_delay_def retry_from.simps)
  have f: "retry_with_delay (\<lambda>i. Inl Sector_Exception :: exn + string) 3 5 =
     \<lparr>result = Inl Sector_Exception, calls = 3, sleeps = [5, 5]\<rparr>"
    by (simp add: retry_with_delay_def retry_from.simps)
  from t g r f show ?thesis by (simp add: get_page_content_def)
qed

theorem get_page_content_retry_policy_witness:
  "retry_with_delay (ejemplo_attempts ''html'') 3 5 =
     \<lparr>result = Inr (Some ''html''), calls = 3, sleeps = [5, 5]\<rparr> \<and>
   isl (ejemplo_attempts ''html'' 0) \<and> isl (ejemplo_attempts ''html'' 1) \<and>
   ejemplo_attempts ''html'' 2 = Inr ''html'' \<and>
   get_page_content (ejemplo_attempts ''html'') = Some ''html'' \<and>
   get_page_content (\<lambda>i. Inr ''html'') = Some ''html'' \<and>
   get_page_content (\<lambda>i. if i = 0 then Inl WebDriver_Exception else Inr ''html'') = Some ''html'' \<and>
   calls (retry_with_delay (\<lambda>i. Inl Entidad_Exception :: exn + string) 3 5) = 3 \<and>
   get_page_content (\<lambda>i. Inl Entidad_Exception) = None \<and>
   get_content (ejemplo_env\<lparr>sector_ok := False\<rparr>) = Some (Inl Sector_Exception) \<and>
   \<not> get_raises (ejemplo_env\<lparr>sector_ok := False\<rparr>) \<and> \<not> sector_ok (ejemplo_env\<lparr>sector_ok := False\<rparr>)"
proof -
  have a: "retry_with_delay (ejemplo_attempts ''html'') 3 5 =
     \<lparr>result = Inr (Some ''html''), calls = 3, sleeps = [5, 5]\<rparr>"
    by (rule retry_ejemplo)
  note p = get_page_content_retry_policy [of "ejemplo_attempts ''html''" "ejemplo_attempts ''html''"
      "''html''" ejemplo_env Sector_Exception]
  from p have "\<forall>i. i < calls (retry_with_delay (ejemplo_attempts ''html'') 3 5) - 1 \<longrightarrow>
      isl (ejemplo_attempts ''html'' i)" by blast
  then have i: "isl (ejemplo_attempts ''html'' 0) \<and> isl (ejemplo_attempts ''html'' 1)"
    unfolding a by simp
  have s: "ejemplo_attempts ''html'' 2 = Inr ''html''"
    by (simp add: ejemplo_attempts_def)
  from p i s have g3: "get_page_content (ejemplo_attempts ''html'') = Some ''html''"
    by blast
  from get_page_content_retry_policy [of "\<lambda>i. Inr ''html'' :: exn + string" "\<lambda>i. Inr ''html''"
      "''html''" ejemplo_env Sector_Exception]
  have g1: "get_page_content (\<lambda>i. Inr ''html'') = Some ''html''" by blast
  from get_page_content_retry_policy [of "\<lambda>i. Inr ''html'' :: exn + string"
      "\<lambda>i. if i = 0 then Inl WebDriver_Exception else Inr ''html''" "''html''" ejemplo_env Sector_Exception]
  have g2: "get_page_content (\<lambda>i. if i = 0 then Inl WebDriver_Exception else Inr ''html'') = Some ''html''"
    by simp
  note q = get_page_content_retry_policy [of "\<lambda>i. Inl Entidad_Exception :: exn + string"
      "\<lambda>i. Inl Entidad_Exception" "''html''" "ejemplo_env\<lparr>sector_ok := False\<rparr>" Sector_Exception]
  have "isl (result (retry_with_delay (\<lambda>i. Inl Entidad_Exception :: exn + string) 3 5))"
    by (simp add: retry_with_delay_def retry_from.simps)
  with q have c: "calls (retry_with_delay (\<lambda>i. Inl Entidad_Exception :: exn + string) 3 5) = 3"
    by blast
  from q have g0: "get_page_content (\<lambda>i. Inl Entidad_Exception) = None"
    by simp
  have e: "get_content (ejemplo_env\<lparr>sector_ok := False\<rparr>) = Some (Inl Sector_Exception)"
    by (simp add: get_content_def ejemplo_env_def)
  with q have n: "\<not> get_raises (ejemplo_env\<lparr>sector_ok := False\<rparr>) \<and>
      \<not> sector_ok (ejemplo_env\<lparr>sector_ok := False\<rparr>)"
    by blast
  from a i s g3 g1 g2 c g0 e n show ?thesis by blast
qed

section \<open>Validation of the date range at construction\<close>

lemma date_le_iff: "date_le a b \<longleftrightarrow> \<not> date_less b a"
  by (cases a; cases b) (auto simp: date_le_def date_less_def)

lemma strptime_dmy_nonempty: "strptime_dmy s = Some d \<Longrightarrow> s \<noteq> []"
  by (auto simp: strptime_dmy_def)

text \<open>
  C5. With both date bounds given, as texts that parse, and the start after the end, the
  constructor raises the \<open>ValueError\<close> of the validation, and no effect has happened
  before: neither the logging nor the driver (the network, the browser) is set up. With
  the start not after the end the validation passes, and the constructor returns the
  crawler once the driver is set up.
\<close>

theorem init_validates_date_range:
  assumes "strptime_dmy a = Some inicio" and "strptime_dmy b = Some fin"
  shows "(date_less fin inicio \<longrightarrow>
            init e t (Some a) (Some b) driver_ok = (Inl (Fechas_ValueError Inicio_Posterior), [])) \<and>
         (date_le inicio fin \<longrightarrow>
            validar_fechas (Some a) (Some b) = Inr () \<and>
            init e t (Some a) (Some b) True =
              (Inr \<lparr> self_estado = e, self_tipo_documento = t, self_fecha_inicio = Some a,
                      self_fecha_fin = Some b,
                      base_url = ''https://www.sucop.gov.co/busqueda?pageSize=100'' \<rparr>,
               [Setup_Logging, Setup_Driver]))"
proof -
  from assms have ne: "a \<noteq> []" "b \<noteq> []" by (auto dest: strptime_dmy_nonempty)
  have v: "validar_fechas (Some a) (Some b) =
      (if date_less fin inicio then Inl (Fechas_ValueError Inicio_Posterior) else Inr ())"
    using assms ne by (simp add: validar_fechas_def)
  show ?thesis
    by (simp add: init_def v date_le_iff)
qed

lemma strptime_ejemplo_rango:
  "strptime_dmy ''01/06/2024'' = Some (Date 2024 6 1)"
  "strptime_dmy ''01/01/2024'' = Some (Date 2024 1 1)"
  by (simp_all add: strptime_dmy_def day_field_def month_field_def year_field_def is_digit_def
      nat_of_digits_def digit_val_def days_in_month_def is_leap_def)

theorem init_validates_date_range_witness:
  "strptime_dmy ''01/06/2024'' = Some (Date 2024 6 1) \<and>
   strptime_dmy ''01/01/2024'' = Some (Date 2024 1 1) \<and>
   date_less (Date 2024 1 1) (Date 2024 6 1) \<and> date_le (Date 2024 1 1) (Date 2024 6 1) \<and>
   init None None (Some ''01/06/2024'') (Some ''01/01/2024'') True =
     (Inl (Fechas_ValueError Inicio_Posterior), []) \<and>
   fst (init None None (Some ''01/01/2024'') (Some ''01/06/2024'') True) =
     Inr \<lparr> self_estado = None, self_tipo_documento = None, self_fecha_inicio = Some ''01/01/2024'',
            self_fecha_fin = Some ''01/06/2024'',
            base_url = ''https://www.sucop.gov.co/busqueda?pageSize=100'' \<rparr>"
proof -
  note s = strptime_ejemplo_rango
  have l: "date_less (Date 2024 1 1) (Date 2024 6 1)" by (simp add: date_less_def)
  then have le: "date_le (Date 2024 1 1) (Date 2024 6 1)" by (simp add: date_le_def)
  from init_validates_date_range [OF s(1) s(2), of None None True] l
  have x: "init None None (Some ''01/06/2024'') (Some ''01/01/2024'') True =
     (Inl (Fechas_ValueError Inicio_Posterior), [])" by blast
  from init_validates_date_range [OF s(2) s(1), of None None True] le
  have y: "init None None (Some ''01/01/2024'') (Some ''01/06/2024'') True =
     (Inr \<lparr> self_estado = None, self_tipo_documento = None, self_fecha_inicio = Some ''01/01/2024'',
            self_fecha_fin = Some ''01/06/2024'',
            base_url = ''https://www.sucop.gov.co/busqueda?pageSize=100'' \<rparr>,
      [Setup_Logging, Setup_Driver])" by blast
  from s l le x y show ?thesis by simp
qed

section \<open>The date round trip\<close>

lemma transform_data_nth:
  assumes "transform_data L now normativas = Some df" and "i < length normativas"
  shows "transform_row L now (normativas ! i) = Some (df ! i)"
proof -
  from assms(1) have m: "map (transform_row L now) normativas = map Some df"
    by (rule transform_data_Some)
  then have "length normativas = length df"
    by (metis length_map)
  with assms(2) have "map (transform_row L now) normativas ! i = transform_row L now (normativas ! i)"
    "map Some df ! i = Some (df ! i)"
    by simp_all
  with m show ?thesis by simp
qed

lemma transform_row_pub:
  "transform_row L now n = Some d \<Longrightarrow> pl_strptime L (fecha_publicacion n) = Some (n_fecha_publicacion d)"
  by (auto simp: transform_row_def split: option.splits)

lemma strftime_ejemplo: "strftime_dmy (Date 2024 3 5) = ''05/03/2024''"
  by (simp add: strftime_dmy_def zfill_def str_nat.simps)

text \<open>
  C8. In every frame \<open>transform_data\<close> returns, the row of a record whose publication date
  text is "05/03/2024" has the calendar date 2024-03-05 (day 5, month 3), and writing
  that date back in the format DD/MM/YYYY gives "05/03/2024" again.
\<close>

theorem date_round_trip:
  assumes "transform_data L now normativas = Some df" and "i < length normativas"
    and "fecha_publicacion (normativas ! i) = ''05/03/2024''"
  shows "n_fecha_publicacion (df ! i) = Date 2024 3 5 \<and>
         day (n_fecha_publicacion (df ! i)) = 5 \<and> month (n_fecha_publicacion (df ! i)) = 3 \<and>
         year (n_fecha_publicacion (df ! i)) = 2024 \<and>
         strftime_dmy (n_fecha_publicacion (df ! i)) = ''05/03/2024''"
proof -
  from assms(1,2) have "transform_row L now (normativas ! i) = Some (df ! i)"
    by (rule transform_data_nth)
  then have "pl_strptime L (fecha_publicacion (normativas ! i)) = Some (n_fecha_publicacion (df ! i))"
    by (rule transform_row_pub)
  with assms(3) have "n_fecha_publicacion (df ! i) = Date 2024 3 5"
    by (simp add: pl_strptime_ejemplo)
  then show ?thesis by (simp add: strftime_ejemplo)
qed

theorem date_round_trip_witness:
  "fecha_publicacion ([ejemplo_normativa] ! 0) = ''05/03/2024'' \<and>
   (\<exists>df. transform_data ejemplo_library 0 [ejemplo_normativa] = Some df \<and>
         n_fecha_publicacion (df ! 0) = Date 2024 3 5 \<and>
         strftime_dmy (n_fecha_publicacion (df ! 0)) = ''05/03/2024'')"
proof -
  have f: "fecha_publicacion ([ejemplo_normativa] ! 0) = ''05/03/2024''"
    by (simp add: ejemplo_normativa_def)
  obtain df where d: "transform_data ejemplo_library 0 [ejemplo_normativa] = Some df"
    by (simp add: transform_data_def transform_frame_def transform_row_ejemplo)
  have l: "0 < length [ejemplo_normativa]" by simp
  from date_round_trip [OF d l f] f d show ?thesis by blast
qed

section \<open>Reprocessing the dump\<close>

lemma json_to_csv_row_eq: "json_to_csv_row L now n = transform_row L now n"
  by (simp add: json_to_csv_row_def transform_row_def clean_titulo_def split: option.splits)

lemma json_to_csv_row_fun_eq: "json_to_csv_row L now = transform_row L now"
  by (rule ext) (rule json_to_csv_row_eq)

lemma json_to_csv_frame_eq: "json_to_csv_frame L now normativas = transform_frame L now normativas"
  by (simp add: json_to_csv_frame_def transform_frame_def json_to_csv_row_fun_eq)

lemma json_to_csv_eq:
  assumes "json_file w = Some normativas"
  shows "json_to_csv L now w = save_to_csv L now normativas w"
  using assms
  by (simp add: json_to_csv_def save_to_csv_def transform_data_def json_to_csv_frame_eq
      split: sum.splits)

lemma transform_row_stamp:
  "map_option (\<lambda>r. r\<lparr>fecha_extraccion := t\<rparr>) (transform_row L now n) = transform_row L t n"
  by (simp add: transform_row_def split: option.splits)

lemma transform_data_stamp:
  "map_option (map (\<lambda>r. r\<lparr>fecha_extraccion := t\<rparr>)) (transform_data L now normativas) =
     transform_data L t normativas"
proof -
  have "map (transform_row L t) normativas =
        map (map_option (\<lambda>r. r\<lparr>fecha_extraccion := t\<rparr>)) (map (transform_row L now) normativas)"
    by (simp add: transform_row_stamp)
  then have "all_rows (map (transform_row L t) normativas) =
        map_option (map (\<lambda>r. r\<lparr>fecha_extraccion := t\<rparr>)) (all_rows (map (transform_row L now) normativas))"
    by (simp only: all_rows_map_option)
  then show ?thesis
    by (simp add: transform_data_def transform_frame_def split: option.splits)
qed

lemma csv_file_write_stats: "csv_file (snd (write_stats L df w)) = csv_file w"
  by (simp add: write_stats_def split: sum.splits)

lemma csv_file_save_to_csv:
  "csv_file (snd (save_to_csv L now normativas w)) =
     (case transform_data L now normativas of None \<Rightarrow> csv_file w | Some df \<Rightarrow> Some df)"
  by (simp add: save_to_csv_def csv_file_write_stats transform_data_def split: option.splits)

text \<open>
  C9. The frame \<open>json_to_csv\<close> builds from a list of raw records is the frame
  \<open>transform_data\<close> builds from it, and fails when it fails. Run on a dump that holds the
  records, \<open>json_to_csv\<close> leaves the files as \<open>save_to_csv\<close> (the in-run path) does at the
  same clock value; at different clock values, the CSV it writes holds the records
  \<open>transform_data\<close> returns with only the extraction time replaced: same dates, titles,
  comment counts, entity, sector and columns. When \<open>transform_data\<close> returns None it
  writes nothing.
\<close>

theorem json_to_csv_same_as_transform_data:
  "json_to_csv_frame L now normativas = transform_frame L now normativas \<and>
   (json_file w = Some normativas \<longrightarrow>
      json_to_csv L now w = save_to_csv L now normativas w \<and>
      (case transform_data L t1 normativas of
         None \<Rightarrow> json_to_csv L t2 w = (None, w)
       | Some df \<Rightarrow>
           csv_file (snd (json_to_csv L t2 w)) = Some (map (\<lambda>r. r\<lparr>fecha_extraccion := t2\<rparr>) df)))"
proof (intro conjI impI)
  show "json_to_csv_frame L now normativas = transform_frame L now normativas"
    by (rule json_to_csv_frame_eq)
next
  assume j: "json_file w = Some normativas"
  then show "json_to_csv L now w = save_to_csv L now normativas w"
    by (rule json_to_csv_eq)
  from j have e: "json_to_csv L t2 w = save_to_csv L t2 normativas w"
    by (rule json_to_csv_eq)
  have s: "transform_data L t2 normativas =
      map_option (map (\<lambda>r. r\<lparr>fecha_extraccion := t2\<rparr>)) (transform_data L t1 normativas)"
    by (simp only: transform_data_stamp)
  show "case transform_data L t1 normativas of
         None \<Rightarrow> json_to_csv L t2 w = (None, w)
       | Some df \<Rightarrow>
           csv_file (snd (json_to_csv L t2 w)) = Some (map (\<lambda>r. r\<lparr>fecha_extraccion := t2\<rparr>) df)"
  proof (cases "transform_data L t1 normativas")
    case None
    with s have "transform_data L t2 normativas = None" by simp
    with None show ?thesis by (simp add: e save_to_csv_def)
  next
    case (Some df)
    with s have "transform_data L t2 normativas = Some (map (\<lambda>r. r\<lparr>fecha_extraccion := t2\<rparr>) df)"
      by simp
    with Some show ?thesis by (simp add: e csv_file_save_to_csv)
  qed
qed

theorem json_to_csv_same_as_transform_data_witness:
  "json_file (save_to_json [ejemplo_normativa] ejemplo_world) = Some [ejemplo_normativa] \<and>
   (\<exists>df. transform_data ejemplo_library 1 [ejemplo_normativa] = Some df \<and>
         csv_file (snd (json_to_csv ejemplo_library 2 (save_to_json [ejemplo_normativa] ejemplo_world))) =
           Some (map (\<lambda>r. r\<lparr>fecha_extraccion := 2\<rparr>) df)) \<and>
   json_to_csv ejemplo_library 2 (save_to_json [ejemplo_normativa] ejemplo_world) =
     save_to_csv ejemplo_library 2 [ejemplo_normativa] (save_to_json [ejemplo_normativa] ejemplo_world)"
proof -
  have j: "json_file (save_to_json [ejemplo_normativa] ejemplo_world) = Some [ejemplo_normativa]"
    by (simp add: save_to_json_def)
  obtain df where d: "transform_data ejemplo_library 1 [ejemplo_normativa] = Some df"
    by (simp add: transform_data_def transform_frame_def transform_row_ejemplo)
  note t = json_to_csv_same_as_transform_data [where L = ejemplo_library and now = 2
      and normativas = "[ejemplo_normativa]"
      and w = "save_to_json [ejemplo_normativa] ejemplo_world" and ?t1.0 = 1 and ?t2.0 = 2,
      THEN conjunct2, rule_format, OF j]
  from t have "case transform_data ejemplo_library 1 [ejemplo_normativa] of
         None \<Rightarrow> json_to_csv ejemplo_library 2 (save_to_json [ejemplo_normativa] ejemplo_world) =
           (None, save_to_json [ejemplo_normativa] ejemplo_world)
       | Some df \<Rightarrow>
           csv_file (snd (json_to_csv ejemplo_library 2 (save_to_json [ejemplo_normativa] ejemplo_world))) =
           Some (map (\<lambda>r. r\<lparr>fecha_extraccion := 2\<rparr>) df)"
    by (rule conjunct2)
  then have c: "csv_file (snd (json_to_csv ejemplo_library 2 (save_to_json [ejemplo_normativa] ejemplo_world))) =
           Some (map (\<lambda>r. r\<lparr>fecha_extraccion := 2\<rparr>) df)"
    unfolding d by simp
  from t have e: "json_to_csv ejemplo_library 2 (save_to_json [ejemplo_normativa] ejemplo_world) =
     save_to_csv ejemplo_library 2 [ejemplo_normativa] (save_to_json [ejemplo_normativa] ejemplo_world)"
    by (rule conjunct1)
  have x: "\<exists>df. transform_data ejemplo_library 1 [ejemplo_normativa] = Some df \<and>
         csv_file (snd (json_to_csv ejemplo_library 2 (save_to_json [ejemplo_normativa] ejemplo_world))) =
           Some (map (\<lambda>r. r\<lparr>fecha_extraccion := 2\<rparr>) df)"
    using d c by (intro exI [of _ df] conjI)
  from j x e show ?thesis by (intro conjI)
qed

end
